theory Spec2Isabelle
  imports Main "HOL-Library.Word" "HOL-Library.AList" "HOL-Library.Sublist"
begin

unbundle bit_operations_syntax

section \<open>Values, headers and errors\<close>

text \<open>
  A \<^verbatim>\<open>Uint8Array\<close> is a list of bytes. A JavaScript string is a \<open>string\<close>; a
  string is identified with its UTF-8 bytes, so \<^verbatim>\<open>TextEncoder.encode\<close> and
  \<^verbatim>\<open>TextDecoder.decode\<close> only change the element type.
\<close>

type_synonym bytes = "8 word list"

definition encoder_encode :: "string \<Rightarrow> bytes" where
  "encoder_encode s = map (\<lambda>c. word_of_nat (of_char c)) s"

definition decoder_decode :: "bytes \<Rightarrow> string" where
  "decoder_decode bs = map (\<lambda>b. char_of (unat b)) bs"

definition concat3 :: "bytes \<Rightarrow> bytes \<Rightarrow> bytes \<Rightarrow> bytes" where
  \<comment> \<open>\<^verbatim>\<open>concat(a, b, c)\<close> of lib/buffer_utils\<close>
  "concat3 a b c = a @ b @ c"

text \<open>The error classes the sources throw; \<open>ProviderError\<close> stands for whatever else a
  collaborator outside the sources may throw.\<close>

datatype error = TypeError | JWEInvalid | JWTInvalid | JOSENotSupported | ProviderError string

text \<open>
  The values a header parameter can hold. \<open>JUndefined\<close> is what reading an absent property
  gives, and also what a property explicitly set to \<^verbatim>\<open>undefined\<close> holds. Numbers are
  restricted to integers: the sources only test them for truthiness.
\<close>

datatype jsvalue =
    JUndefined
  | JNull
  | JBool bool
  | JNum int
  | JStr string
  | JArr "jsvalue list"
  | JObj "(string \<times> jsvalue) list"

fun truthy :: "jsvalue \<Rightarrow> bool" where
  "truthy JUndefined = False"
| "truthy JNull = False"
| "truthy (JBool b) = b"
| "truthy (JNum n) = (n \<noteq> 0)"
| "truthy (JStr s) = (s \<noteq> [])"
| "truthy (JArr xs) = True"
| "truthy (JObj kvs) = True"

text \<open>
  A header object is the list of its own properties in insertion order. A slot that was
  never assigned holds \<^verbatim>\<open>undefined\<close>: \<open>None\<close>.
\<close>

type_synonym header = "(string \<times> jsvalue) list"

definition names :: "header \<Rightarrow> string list" where
  "names h = map fst h"

definition read_prop :: "header \<Rightarrow> string \<Rightarrow> jsvalue" where
  \<comment> \<open>the property read \<^verbatim>\<open>h.k\<close>\<close>
  "read_prop h k = (case map_of h k of None \<Rightarrow> JUndefined | Some v \<Rightarrow> v)"

definition read_opt :: "header option \<Rightarrow> string \<Rightarrow> jsvalue" where
  \<comment> \<open>the optional read \<^verbatim>\<open>h?.k\<close>\<close>
  "read_opt ho k = (case ho of None \<Rightarrow> JUndefined | Some h \<Rightarrow> read_prop h k)"

definition spread :: "header \<Rightarrow> header \<Rightarrow> header" where
  \<comment> \<open>\<^verbatim>\<open>{ ...a, ...b }\<close>: a property of \<open>b\<close> overwrites in place, a new one is appended\<close>
  "spread a b = foldl (\<lambda>acc (k, v). AList.update k v acc) a b"

definition ospread :: "header \<Rightarrow> header option \<Rightarrow> header" where
  \<comment> \<open>spreading \<^verbatim>\<open>undefined\<close> adds nothing\<close>
  "ospread a bo = (case bo of None \<Rightarrow> a | Some b \<Rightarrow> spread a b)"

definition spread3 :: "header option \<Rightarrow> header option \<Rightarrow> header option \<Rightarrow> header" where
  \<comment> \<open>\<^verbatim>\<open>{ ...a, ...b, ...c }\<close>\<close>
  "spread3 a b c = ospread (ospread (ospread [] a) b) c"

subsection \<open>Collaborators that are not among the sources\<close>

definition isDisjoint :: "header option list \<Rightarrow> bool" where
  \<comment> \<open>Modelled from the spec: lib/is_disjoint is not among the sources. The spec: header
     parameter names are disjoint across the header slots; a duplicate name across two
     slots is a violation. An unset slot has no names.\<close>
  "isDisjoint slots =
     distinct (concat (map (\<lambda>s. case s of None \<Rightarrow> [] | Some h \<Rightarrow> remdups (names h)) slots))"

definition slot_names :: "header option \<Rightarrow> string set" where
  \<comment> \<open>the parameter names a header slot carries\<close>
  "slot_names slot = (case slot of None \<Rightarrow> {} | Some h \<Rightarrow> set (names h))"

definition b64char :: "nat \<Rightarrow> char" where
  "b64char n =
     ''ABCDEFGHIJKLMNOPQRSTUVWXYZabcdefghijklmnopqrstuvwxyz0123456789-_'' ! (n mod 64)"

fun base64url :: "bytes \<Rightarrow> string" where
  \<comment> \<open>Modelled from the spec: runtime/base64url and util/base64url are not among the
     sources. The spec: base64url encode without padding (RFC 4648, section 5).\<close>
  "base64url [] = []"
| "base64url [a] =
     (let n = unat a * 16 in [b64char (n div 64), b64char n])"
| "base64url [a, b] =
     (let n = unat a * 1024 + unat b * 4
      in [b64char (n div 4096), b64char (n div 64), b64char n])"
| "base64url (a # b # c # rest) =
     (let n = unat a * 65536 + unat b * 256 + unat c
      in [b64char (n div 262144), b64char (n div 4096), b64char (n div 64), b64char n])
     @ base64url rest"

definition base64url_str :: "string \<Rightarrow> string" where
  \<comment> \<open>\<^verbatim>\<open>base64url(s)\<close> on a string argument encodes its UTF-8 bytes\<close>
  "base64url_str s = base64url (encoder_encode s)"

section \<open>checkIvLength\<close>

text \<open>
  \<^verbatim>\<open>iv.length << 3 !== bitLength(enc)\<close>. JavaScript's \<^verbatim>\<open><<\<close> converts its left
  operand to a 32-bit integer, shifts, and reads the result as signed. \<open>bitLength\<close> is
  imported from lib/iv, which is not among the sources: it is a parameter, and may throw.
\<close>

definition checkIvLength :: "(string \<Rightarrow> error + int) \<Rightarrow> string \<Rightarrow> bytes \<Rightarrow> error + unit" where
  "checkIvLength bitLength enc iv =
     (case bitLength enc of
        Inl e \<Rightarrow> Inl e
      | Inr n \<Rightarrow>
          if sint (push_bit 3 (word_of_nat (length iv) :: 32 word)) \<noteq> n
          then Inl JWEInvalid
          else Inr ())"

definition bitLength_A128GCM :: "string \<Rightarrow> error + int" where
  \<comment> \<open>Modelled from the spec: lib/iv is not among the sources. The spec fixes one entry,
     a 96-bit IV for A128GCM; no other identifier is given a length here.\<close>
  "bitLength_A128GCM enc = (if enc = ''A128GCM'' then Inr 96 else Inl JOSENotSupported)"

section \<open>jwtVerify\<close>

text \<open>A key is a byte sequence (a secret, a content-encryption key) or an opaque key
  object named by a handle. The \<open>key\<close> argument of \<^verbatim>\<open>jwtVerify\<close> is a key or a
  resolver function.\<close>

datatype key = Secret bytes | KeyObject string

datatype 'f keyarg = KeyArg key | GetKey 'f

record verified =
  v_payload :: bytes
  v_protectedHeader :: header
  v_key :: "key option"

record 'c jwtresult =
  res_payload :: 'c
  res_protectedHeader :: header
  res_key :: "key option option"

definition includes_b64 :: "jsvalue \<Rightarrow> error + bool" where
  \<comment> \<open>\<^verbatim>\<open>crit?.includes('b64')\<close>: short-circuits on undefined and null, is membership on
     an array and substring search on a string; any other value has no such method\<close>
  "includes_b64 crit =
     (case crit of
        JUndefined \<Rightarrow> Inr False
      | JNull \<Rightarrow> Inr False
      | JArr xs \<Rightarrow> Inr (JStr ''b64'' \<in> set xs)
      | JStr s \<Rightarrow> Inr (sublist ''b64'' s)
      | _ \<Rightarrow> Inl TypeError)"

text \<open>\<open>compactVerify\<close> and \<open>jwtPayload\<close> (lib/jwt_claims_set) are imported and not among
  the sources: parameters, each of which may throw.\<close>

definition jwtVerify ::
  "(string \<Rightarrow> 'f keyarg \<Rightarrow> 'o \<Rightarrow> error + verified) \<Rightarrow>
   (header \<Rightarrow> bytes \<Rightarrow> 'o \<Rightarrow> error + 'c) \<Rightarrow>
   string \<Rightarrow> 'f keyarg \<Rightarrow> 'o \<Rightarrow> error + 'c jwtresult" where
  "jwtVerify compactVerify jwtPayload jwt key options =
     (case compactVerify jwt key options of
        Inl e \<Rightarrow> Inl e
      | Inr verified \<Rightarrow>
          (case includes_b64 (read_prop (v_protectedHeader verified) ''crit'') of
             Inl e \<Rightarrow> Inl e
           | Inr inc \<Rightarrow>
               if inc \<and> read_prop (v_protectedHeader verified) ''b64'' = JBool False
               then Inl JWTInvalid
               else
                 (case jwtPayload (v_protectedHeader verified) (v_payload verified) options of
                    Inl e \<Rightarrow> Inl e
                  | Inr payload \<Rightarrow>
                      Inr \<lparr>res_payload = payload,
                           res_protectedHeader = v_protectedHeader verified,
                           res_key = (case key of GetKey f \<Rightarrow> Some (v_key verified)
                                      | KeyArg k \<Rightarrow> None)\<rparr>)))"

section \<open>FlattenedEncrypt\<close>

subsection \<open>The collaborators of the encryption classes\<close>

record kmparams =
  apu :: "bytes option"
  apv :: "bytes option"
  epk :: "key option"
  kiv :: "bytes option"
  p2c :: "int option"
  p2s :: "bytes option"

record kmresult =
  km_cek :: key
  km_encryptedKey :: "bytes option"
  km_parameters :: "header option"

text \<open>
  What the classes import and the sources do not hold is a parameter. The functions that
  draw randomness or wait on the platform take the platform's state \<open>'w\<close> and return
  the next one; each may throw. \<open>stringify\<close> is \<^verbatim>\<open>JSON.stringify\<close>.
\<close>

record 'w provider =
  stringify :: "header \<Rightarrow> string"
  validateCrit ::
    "error \<Rightarrow> (string \<times> bool) list option \<Rightarrow> header option \<Rightarrow> header \<Rightarrow> error option"
  checkKeyType :: "string \<Rightarrow> key \<Rightarrow> error option"
  generateIv :: "string \<Rightarrow> 'w \<Rightarrow> (error + bytes) \<times> 'w"
  generateCek :: "string \<Rightarrow> 'w \<Rightarrow> (error + bytes) \<times> 'w"
  encryptKeyManagement ::
    "string \<Rightarrow> string \<Rightarrow> key \<Rightarrow> bytes option \<Rightarrow> kmparams option \<Rightarrow> 'w
       \<Rightarrow> (error + kmresult) \<times> 'w"
  encrypt :: "string \<Rightarrow> bytes \<Rightarrow> key \<Rightarrow> bytes \<Rightarrow> bytes \<Rightarrow> 'w \<Rightarrow> (error + bytes \<times> bytes) \<times> 'w"
  deflate :: "bytes \<Rightarrow> 'w \<Rightarrow> (error + bytes) \<times> 'w"
  normalizeKey :: "key \<Rightarrow> string \<Rightarrow> 'w \<Rightarrow> (error + key) \<times> 'w"

record 'w options =
  crit :: "(string \<times> bool) list option"
  deflateRaw :: "(bytes \<Rightarrow> 'w \<Rightarrow> (error + bytes) \<times> 'w) option"

text \<open>Every call of a primitive is recorded, in order, with its arguments; a generated
  content-encryption key is recorded with the call that made it.\<close>

datatype event =
    EvGenerateIv string
  | EvGenerateCek string "error + bytes"
  | EvKeyManagement string string key "bytes option" "kmparams option"
  | EvEncrypt string bytes key bytes bytes
  | EvDeflate bytes
  | EvNormalizeKey key string

type_synonym 'w world = "'w \<times> event list"

definition invoke :: "event \<Rightarrow> ('w \<Rightarrow> 'a \<times> 'w) \<Rightarrow> 'w world \<Rightarrow> 'a \<times> 'w world" where
  "invoke ev f s = (case f (fst s) of (r, w') \<Rightarrow> (r, (w', snd s @ [ev])))"

definition call_generateIv :: "'w provider \<Rightarrow> string \<Rightarrow> 'w world \<Rightarrow> (error + bytes) \<times> 'w world" where
  "call_generateIv P enc = invoke (EvGenerateIv enc) (generateIv P enc)"

definition call_generateCek :: "'w provider \<Rightarrow> string \<Rightarrow> 'w world \<Rightarrow> (error + bytes) \<times> 'w world" where
  "call_generateCek P enc s =
     invoke (EvGenerateCek enc (fst (generateCek P enc (fst s)))) (generateCek P enc) s"

definition call_encryptKeyManagement ::
  "'w provider \<Rightarrow> string \<Rightarrow> string \<Rightarrow> key \<Rightarrow> bytes option \<Rightarrow> kmparams option \<Rightarrow> 'w world
     \<Rightarrow> (error + kmresult) \<times> 'w world" where
  "call_encryptKeyManagement P alg enc k c ps =
     invoke (EvKeyManagement alg enc k c ps) (encryptKeyManagement P alg enc k c ps)"

definition call_encrypt ::
  "'w provider \<Rightarrow> string \<Rightarrow> bytes \<Rightarrow> key \<Rightarrow> bytes \<Rightarrow> bytes \<Rightarrow> 'w world
     \<Rightarrow> (error + bytes \<times> bytes) \<times> 'w world" where
  "call_encrypt P enc pt k iv ad = invoke (EvEncrypt enc pt k iv ad) (encrypt P enc pt k iv ad)"

definition call_deflate ::
  "'w provider \<Rightarrow> 'w options \<Rightarrow> bytes \<Rightarrow> 'w world \<Rightarrow> (error + bytes) \<times> 'w world" where
  \<comment> \<open>\<^verbatim>\<open>(options?.deflateRaw || deflate)(plaintext)\<close>\<close>
  "call_deflate P opts pt =
     invoke (EvDeflate pt) (case deflateRaw opts of Some f \<Rightarrow> f pt | None \<Rightarrow> deflate P pt)"

definition call_normalizeKey ::
  "'w provider \<Rightarrow> key \<Rightarrow> string \<Rightarrow> 'w world \<Rightarrow> (error + key) \<times> 'w world" where
  "call_normalizeKey P k alg = invoke (EvNormalizeKey k alg) (normalizeKey P k alg)"

subsection \<open>The builder and its setters\<close>

record FlattenedEncrypt =
  f_plaintext :: bytes
  f_protectedHeader :: "header option"
  f_sharedUnprotectedHeader :: "header option"
  f_unprotectedHeader :: "header option"
  f_aad :: "bytes option"
  f_cek :: "bytes option"
  f_iv :: "bytes option"
  f_keyManagementParameters :: "kmparams option"

definition new_FlattenedEncrypt :: "bytes \<Rightarrow> FlattenedEncrypt" where
  "new_FlattenedEncrypt plaintext =
     \<lparr>f_plaintext = plaintext, f_protectedHeader = None, f_sharedUnprotectedHeader = None,
      f_unprotectedHeader = None, f_aad = None, f_cek = None, f_iv = None,
      f_keyManagementParameters = None\<rparr>"

text \<open>
  A setter returns what it threw, if anything, and the instance after the call. Its
  argument is an option because GeneralEncrypt passes its own slots on, set or not. The
  guard \<^verbatim>\<open>if (this._x)\<close> tests an object or \<^verbatim>\<open>undefined\<close>: it holds exactly when
  the slot is set.
\<close>

definition setKeyManagementParameters ::
  "kmparams option \<Rightarrow> FlattenedEncrypt \<Rightarrow> error option \<times> FlattenedEncrypt" where
  "setKeyManagementParameters parameters this =
     (if f_keyManagementParameters this \<noteq> None then (Some TypeError, this)
      else (None, this\<lparr>f_keyManagementParameters := parameters\<rparr>))"

definition setProtectedHeader ::
  "header option \<Rightarrow> FlattenedEncrypt \<Rightarrow> error option \<times> FlattenedEncrypt" where
  "setProtectedHeader protectedHeader this =
     (if f_protectedHeader this \<noteq> None then (Some TypeError, this)
      else (None, this\<lparr>f_protectedHeader := protectedHeader\<rparr>))"

definition setSharedUnprotectedHeader ::
  "header option \<Rightarrow> FlattenedEncrypt \<Rightarrow> error option \<times> FlattenedEncrypt" where
  "setSharedUnprotectedHeader sharedUnprotectedHeader this =
     (if f_sharedUnprotectedHeader this \<noteq> None then (Some TypeError, this)
      else (None, this\<lparr>f_sharedUnprotectedHeader := sharedUnprotectedHeader\<rparr>))"

definition setUnprotectedHeader ::
  "header option \<Rightarrow> FlattenedEncrypt \<Rightarrow> error option \<times> FlattenedEncrypt" where
  "setUnprotectedHeader unprotectedHeader this =
     (if f_unprotectedHeader this \<noteq> None then (Some TypeError, this)
      else (None, this\<lparr>f_unprotectedHeader := unprotectedHeader\<rparr>))"

definition setAdditionalAuthenticatedData ::
  "bytes option \<Rightarrow> FlattenedEncrypt \<Rightarrow> error option \<times> FlattenedEncrypt" where
  "setAdditionalAuthenticatedData aad this = (None, this\<lparr>f_aad := aad\<rparr>)"

definition setContentEncryptionKey ::
  "bytes option \<Rightarrow> FlattenedEncrypt \<Rightarrow> error option \<times> FlattenedEncrypt" where
  "setContentEncryptionKey cek this =
     (if f_cek this \<noteq> None then (Some TypeError, this)
      else (None, this\<lparr>f_cek := cek\<rparr>))"

definition setInitializationVector ::
  "bytes option \<Rightarrow> FlattenedEncrypt \<Rightarrow> error option \<times> FlattenedEncrypt" where
  "setInitializationVector iv this =
     (if f_iv this \<noteq> None then (Some TypeError, this)
      else (None, this\<lparr>f_iv := iv\<rparr>))"

definition and_then ::
  "error option \<times> 's \<Rightarrow> ('s \<Rightarrow> error option \<times> 's) \<Rightarrow> error option \<times> 's" where
  \<comment> \<open>method chaining \<^verbatim>\<open>x.f().g()\<close>: a throw ends the chain\<close>
  "and_then r f = (case r of (Some e, s) \<Rightarrow> (Some e, s) | (None, s) \<Rightarrow> f s)"

subsection \<open>FlattenedEncrypt.encrypt\<close>

record FlattenedJWE =
  jwe_ciphertext :: string
  jwe_iv :: string
  jwe_tag :: string
  jwe_encrypted_key :: "string option"
  jwe_aad :: "string option"
  jwe_protected :: "string option"
  jwe_unprotected :: "header option"
  jwe_header :: "header option"

definition joseHeader_of :: "FlattenedEncrypt \<Rightarrow> header" where
  "joseHeader_of this =
     spread3 (f_protectedHeader this) (f_unprotectedHeader this) (f_sharedUnprotectedHeader this)"

definition string_param :: "jsvalue \<Rightarrow> string option" where
  \<comment> \<open>the test \<^verbatim>\<open>typeof v !== 'string' || !v\<close> rejects all but a non-empty string\<close>
  "string_param v = (case v of JStr s \<Rightarrow> if s = [] then None else Some s | _ \<Rightarrow> None)"

text \<open>Everything \<^verbatim>\<open>encrypt\<close> does before its first call of a primitive: it throws, or
  yields \<^verbatim>\<open>alg\<close> and \<^verbatim>\<open>enc\<close>.\<close>

definition encrypt_checks ::
  "'w provider \<Rightarrow> 'w options \<Rightarrow> FlattenedEncrypt \<Rightarrow> error + string \<times> string" where
  "encrypt_checks P opts this =
     (if f_protectedHeader this = None \<and> f_unprotectedHeader this = None
          \<and> f_sharedUnprotectedHeader this = None
      then Inl JWEInvalid
      else if \<not> isDisjoint [f_protectedHeader this, f_unprotectedHeader this,
                              f_sharedUnprotectedHeader this]
      then Inl JWEInvalid
      else
        (case validateCrit P JWEInvalid (crit opts) (f_protectedHeader this) (joseHeader_of this) of
           Some e \<Rightarrow> Inl e
         | None \<Rightarrow>
             if read_prop (joseHeader_of this) ''zip'' \<noteq> JUndefined
                \<and> (f_protectedHeader this = None
                     \<or> \<not> truthy (read_opt (f_protectedHeader this) ''zip''))
             then Inl JWEInvalid
             else if read_prop (joseHeader_of this) ''zip'' \<noteq> JUndefined
                     \<and> read_prop (joseHeader_of this) ''zip'' \<noteq> JStr ''DEF''
             then Inl JOSENotSupported
             else
               (case string_param (read_prop (joseHeader_of this) ''alg'') of
                  None \<Rightarrow> Inl JWEInvalid
                | Some alg \<Rightarrow>
                    (case string_param (read_prop (joseHeader_of this) ''enc'') of
                       None \<Rightarrow> Inl JWEInvalid
                     | Some enc \<Rightarrow>
                         if alg = ''dir'' \<and> f_cek this \<noteq> None then Inl TypeError
                         else if alg = ''ECDH-ES'' \<and> f_cek this \<noteq> None then Inl TypeError
                         else Inr (alg, enc)))))"

definition merge_parameters :: "header option \<Rightarrow> FlattenedEncrypt \<Rightarrow> FlattenedEncrypt" where
  \<comment> \<open>\<^verbatim>\<open>if (parameters) { ... }\<close>; the setter is called on an unset slot, where its guard
     cannot fire\<close>
  "merge_parameters parameters this =
     (case parameters of
        None \<Rightarrow> this
      | Some ps \<Rightarrow>
          (case f_protectedHeader this of
             None \<Rightarrow> snd (setProtectedHeader (Some ps) this)
           | Some ph \<Rightarrow> this\<lparr>f_protectedHeader := Some (spread ph ps)\<rparr>))"

definition protectedHeader_bytes :: "'w provider \<Rightarrow> FlattenedEncrypt \<Rightarrow> bytes" where
  "protectedHeader_bytes P this =
     (case f_protectedHeader this of
        Some ph \<Rightarrow> encoder_encode (base64url_str (stringify P ph))
      | None \<Rightarrow> encoder_encode [])"

definition aadMember :: "FlattenedEncrypt \<Rightarrow> string option" where
  "aadMember this = (case f_aad this of Some a \<Rightarrow> Some (base64url a) | None \<Rightarrow> None)"

definition additionalData :: "'w provider \<Rightarrow> FlattenedEncrypt \<Rightarrow> bytes" where
  "additionalData P this =
     (case aadMember this of
        Some m \<Rightarrow> concat3 (protectedHeader_bytes P this) (encoder_encode ''.'') (encoder_encode m)
      | None \<Rightarrow> protectedHeader_bytes P this)"

definition nonempty :: "string option \<Rightarrow> string option" where
  \<comment> \<open>\<^verbatim>\<open>if (s) out.x = s\<close> for a string or undefined \<open>s\<close>: the empty string is falsy\<close>
  "nonempty so = (case so of Some s \<Rightarrow> if s = [] then None else Some s | None \<Rightarrow> None)"

definition assemble ::
  "'w provider \<Rightarrow> FlattenedEncrypt \<Rightarrow> bytes \<Rightarrow> bytes option \<Rightarrow> bytes \<Rightarrow> bytes \<Rightarrow> FlattenedJWE" where
  "assemble P this iv encryptedKey ciphertext tag =
     \<lparr>jwe_ciphertext = base64url ciphertext,
      jwe_iv = base64url iv,
      jwe_tag = base64url tag,
      jwe_encrypted_key = map_option base64url encryptedKey,
      jwe_aad = nonempty (aadMember this),
      jwe_protected =
        (case f_protectedHeader this of
           Some ph \<Rightarrow> Some (decoder_decode (protectedHeader_bytes P this))
         | None \<Rightarrow> None),
      jwe_unprotected = f_sharedUnprotectedHeader this,
      jwe_header = f_unprotectedHeader this\<rparr>"

text \<open>From \<^verbatim>\<open>this._iv ||= generateIv(enc)\<close> to the end. \<open>zipped\<close> is
  \<^verbatim>\<open>joseHeader.zip === 'DEF'\<close>, read from the header merged before key management.\<close>

definition encrypt_content ::
  "'w provider \<Rightarrow> 'w options \<Rightarrow> string \<Rightarrow> bool \<Rightarrow> kmresult \<Rightarrow> FlattenedEncrypt \<Rightarrow> 'w world
     \<Rightarrow> (error + FlattenedJWE) \<times> FlattenedEncrypt \<times> 'w world" where
  "encrypt_content P opts enc zipped km this s =
     (case (case f_iv this of Some iv \<Rightarrow> (Inr iv, s) | None \<Rightarrow> call_generateIv P enc s) of
        (Inl e, s1) \<Rightarrow> (Inl e, this, s1)
      | (Inr iv, s1) \<Rightarrow>
          (case (if zipped then call_deflate P opts (f_plaintext this) s1
                 else (Inr (f_plaintext this), s1)) of
             (Inl e, s2) \<Rightarrow> (Inl e, this\<lparr>f_iv := Some iv\<rparr>, s2)
           | (Inr pt, s2) \<Rightarrow>
               (case call_encrypt P enc pt (km_cek km) iv (additionalData P this) s2 of
                  (Inl e, s3) \<Rightarrow> (Inl e, this\<lparr>f_iv := Some iv\<rparr>, s3)
                | (Inr (ciphertext, tag), s3) \<Rightarrow>
                    (Inr (assemble P this iv (km_encryptedKey km) ciphertext tag),
                     this\<lparr>f_iv := Some iv\<rparr>, s3))))"

definition FlattenedEncrypt_encrypt ::
  "'w provider \<Rightarrow> key \<Rightarrow> 'w options \<Rightarrow> FlattenedEncrypt \<Rightarrow> 'w world
     \<Rightarrow> (error + FlattenedJWE) \<times> FlattenedEncrypt \<times> 'w world" where
  "FlattenedEncrypt_encrypt P k opts this s =
     (case encrypt_checks P opts this of
        Inl e \<Rightarrow> (Inl e, this, s)
      | Inr (alg, enc) \<Rightarrow>
          (case call_encryptKeyManagement P alg enc k (f_cek this)
                  (f_keyManagementParameters this) s of
             (Inl e, s1) \<Rightarrow> (Inl e, this, s1)
           | (Inr km, s1) \<Rightarrow>
               encrypt_content P opts enc
                 (read_prop (joseHeader_of this) ''zip'' = JStr ''DEF'') km
                 (merge_parameters (km_parameters km) this) s1))"

section \<open>GeneralEncrypt\<close>

record IndividualRecipient =
  r_unprotectedHeader :: "header option"
  r_key :: key
  r_crit :: "(string \<times> bool) list option"

record GeneralEncrypt =
  g_plaintext :: bytes
  g_recipients :: "IndividualRecipient list"
  g_protectedHeader :: "header option"
  g_unprotectedHeader :: "header option"
  g_aad :: "bytes option"

definition new_GeneralEncrypt :: "bytes \<Rightarrow> GeneralEncrypt" where
  "new_GeneralEncrypt plaintext =
     \<lparr>g_plaintext = plaintext, g_recipients = [], g_protectedHeader = None,
      g_unprotectedHeader = None, g_aad = None\<rparr>"

definition addRecipient ::
  "key \<Rightarrow> (string \<times> bool) list option \<Rightarrow> GeneralEncrypt \<Rightarrow> nat \<times> GeneralEncrypt" where
  \<comment> \<open>the new recipient is returned as its index in the builder's list\<close>
  "addRecipient k c this =
     (length (g_recipients this),
      this\<lparr>g_recipients := g_recipients this
               @ [\<lparr>r_unprotectedHeader = None, r_key = k, r_crit = c\<rparr>]\<rparr>)"

definition Recipient_setUnprotectedHeader ::
  "header option \<Rightarrow> IndividualRecipient \<Rightarrow> error option \<times> IndividualRecipient" where
  "Recipient_setUnprotectedHeader unprotectedHeader this =
     (if r_unprotectedHeader this \<noteq> None then (Some TypeError, this)
      else (None, this\<lparr>r_unprotectedHeader := unprotectedHeader\<rparr>))"

definition General_setProtectedHeader ::
  "header option \<Rightarrow> GeneralEncrypt \<Rightarrow> error option \<times> GeneralEncrypt" where
  "General_setProtectedHeader protectedHeader this =
     (if g_protectedHeader this \<noteq> None then (Some TypeError, this)
      else (None, this\<lparr>g_protectedHeader := protectedHeader\<rparr>))"

definition General_setSharedUnprotectedHeader ::
  "header option \<Rightarrow> GeneralEncrypt \<Rightarrow> error option \<times> GeneralEncrypt" where
  "General_setSharedUnprotectedHeader sharedUnprotectedHeader this =
     (if g_unprotectedHeader this \<noteq> None then (Some TypeError, this)
      else (None, this\<lparr>g_unprotectedHeader := sharedUnprotectedHeader\<rparr>))"

definition General_setAdditionalAuthenticatedData ::
  "bytes option \<Rightarrow> GeneralEncrypt \<Rightarrow> error option \<times> GeneralEncrypt" where
  "General_setAdditionalAuthenticatedData aad this = (None, this\<lparr>g_aad := aad\<rparr>)"

subsection \<open>GeneralEncrypt.encrypt\<close>

record recipient_out =
  ro_header :: "header option"
  ro_encrypted_key :: "string option"

record GeneralJWE =
  gj_ciphertext :: string
  gj_iv :: string
  gj_tag :: string
  gj_recipients :: "recipient_out list"
  gj_aad :: "string option"
  gj_protected :: "string option"
  gj_unprotected :: "header option"

definition recipient_options :: "IndividualRecipient \<Rightarrow> 'w options" where
  \<comment> \<open>\<^verbatim>\<open>{ ...recipient.options }\<close>: the recipient's \<^verbatim>\<open>crit\<close> and nothing else that
     FlattenedEncrypt reads\<close>
  "recipient_options recipient = \<lparr>crit = r_crit recipient, deflateRaw = None\<rparr>"

definition single_builder ::
  "GeneralEncrypt \<Rightarrow> IndividualRecipient \<Rightarrow> error option \<times> FlattenedEncrypt" where
  "single_builder this recipient =
     and_then (and_then (and_then
       (setAdditionalAuthenticatedData (g_aad this) (new_FlattenedEncrypt (g_plaintext this)))
       (setProtectedHeader (g_protectedHeader this)))
       (setSharedUnprotectedHeader (g_unprotectedHeader this)))
       (setUnprotectedHeader (r_unprotectedHeader recipient))"

definition first_builder ::
  "GeneralEncrypt \<Rightarrow> IndividualRecipient \<Rightarrow> bytes \<Rightarrow> int option
     \<Rightarrow> error option \<times> FlattenedEncrypt" where
  "first_builder this recipient cek p2c_opt =
     and_then (and_then (and_then (and_then (and_then
       (setAdditionalAuthenticatedData (g_aad this) (new_FlattenedEncrypt (g_plaintext this)))
       (setContentEncryptionKey (Some cek)))
       (setProtectedHeader (g_protectedHeader this)))
       (setSharedUnprotectedHeader (g_unprotectedHeader this)))
       (setUnprotectedHeader (r_unprotectedHeader recipient)))
       (setKeyManagementParameters
          (Some \<lparr>apu = None, apv = None, epk = None, kiv = None, p2c = p2c_opt, p2s = None\<rparr>))"

definition recipient_header :: "GeneralEncrypt \<Rightarrow> IndividualRecipient \<Rightarrow> header" where
  \<comment> \<open>\<^verbatim>\<open>joseHeader\<close> of either loop\<close>
  "recipient_header this recipient =
     spread3 (g_protectedHeader this) (g_unprotectedHeader this) (r_unprotectedHeader recipient)"

definition crit_or_zip_error ::
  "'w provider \<Rightarrow> GeneralEncrypt \<Rightarrow> IndividualRecipient \<Rightarrow> error option" where
  \<comment> \<open>the last two checks of an iteration of the first loop: what \<^verbatim>\<open>validateCrit\<close>
     throws, or else JOSENotSupported for a \<^verbatim>\<open>zip\<close> parameter\<close>
  "crit_or_zip_error P this recipient =
     (case validateCrit P JWEInvalid (r_crit recipient) (g_protectedHeader this)
             (recipient_header this recipient) of
        Some e \<Rightarrow> Some e
      | None \<Rightarrow>
          if read_prop (recipient_header this recipient) ''zip'' \<noteq> JUndefined
          then Some JOSENotSupported
          else None)"

text \<open>One iteration of the first loop. \<open>enc\<close> is the variable declared before the
  loop; unassigned it is modelled by the empty string, which the test \<^verbatim>\<open>!enc\<close> does
  not tell from \<^verbatim>\<open>undefined\<close>. The iteration throws or yields the value \<open>enc\<close> has
  after it.\<close>

definition check_recipient ::
  "'w provider \<Rightarrow> GeneralEncrypt \<Rightarrow> string \<Rightarrow> IndividualRecipient \<Rightarrow> error + string" where
  "check_recipient P this enc recipient =
     (if \<not> isDisjoint [g_protectedHeader this, g_unprotectedHeader this,
                         r_unprotectedHeader recipient]
      then Inl JWEInvalid
      else
        (case string_param (read_prop (recipient_header this recipient) ''alg'') of
           None \<Rightarrow> Inl JWEInvalid
         | Some alg \<Rightarrow>
             if alg = ''dir'' \<or> alg = ''ECDH-ES'' then Inl JWEInvalid
             else
               (case string_param (read_prop (recipient_header this recipient) ''enc'') of
                  None \<Rightarrow> Inl JWEInvalid
                | Some henc \<Rightarrow>
                    if enc \<noteq> [] \<and> enc \<noteq> henc then Inl JWEInvalid
                    else
                      (case crit_or_zip_error P this recipient of
                         Some e \<Rightarrow> Inl e
                       | None \<Rightarrow> Inr henc))))"

text \<open>The first loop, over the recipients in order.\<close>

fun check_recipients ::
  "'w provider \<Rightarrow> GeneralEncrypt \<Rightarrow> string \<Rightarrow> IndividualRecipient list \<Rightarrow> error + string" where
  "check_recipients P this enc [] = Inr enc"
| "check_recipients P this enc (recipient # rest) =
     (case check_recipient P this enc recipient of
        Inl e \<Rightarrow> Inl e
      | Inr enc' \<Rightarrow> check_recipients P this enc' rest)"

definition js_or :: "jsvalue \<Rightarrow> jsvalue \<Rightarrow> jsvalue" where
  \<comment> \<open>\<^verbatim>\<open>a || b\<close>\<close>
  "js_or a b = (if truthy a then a else b)"

definition recipient_alg :: "GeneralEncrypt \<Rightarrow> IndividualRecipient \<Rightarrow> jsvalue" where
  "recipient_alg this recipient =
     js_or (js_or (read_opt (r_unprotectedHeader recipient) ''alg'')
                  (read_opt (g_protectedHeader this) ''alg''))
           (read_opt (g_unprotectedHeader this) ''alg'')"

definition p2c_for :: "string \<Rightarrow> nat \<Rightarrow> int option" where
  \<comment> \<open>\<^verbatim>\<open>alg.startsWith('PBES2') ? 2048 + i : undefined\<close>\<close>
  "p2c_for alg i = (if prefix ''PBES2'' alg then Some (2048 + int i) else None)"

definition empty_jwe :: GeneralJWE where
  "empty_jwe =
     \<lparr>gj_ciphertext = [], gj_iv = [], gj_tag = [], gj_recipients = [], gj_aad = None,
      gj_protected = None, gj_unprotected = None\<rparr>"

definition first_target :: "FlattenedJWE \<Rightarrow> GeneralJWE \<Rightarrow> GeneralJWE" where
  \<comment> \<open>what iteration 0 copies from the flattened result\<close>
  "first_target flattened jwe =
     jwe\<lparr>gj_ciphertext := jwe_ciphertext flattened,
         gj_iv := jwe_iv flattened,
         gj_tag := jwe_tag flattened,
         gj_aad := (case nonempty (jwe_aad flattened) of Some a \<Rightarrow> Some a
                    | None \<Rightarrow> gj_aad jwe),
         gj_protected := (case nonempty (jwe_protected flattened) of Some p \<Rightarrow> Some p
                          | None \<Rightarrow> gj_protected jwe),
         gj_unprotected := (case jwe_unprotected flattened of Some u \<Rightarrow> Some u
                            | None \<Rightarrow> gj_unprotected jwe),
         gj_recipients := gj_recipients jwe
           @ [\<lparr>ro_header = jwe_header flattened,
                ro_encrypted_key = jwe_encrypted_key flattened\<rparr>]\<rparr>"

definition wrapped_target ::
  "IndividualRecipient \<Rightarrow> bytes \<Rightarrow> header option \<Rightarrow> GeneralJWE \<Rightarrow> GeneralJWE" where
  \<comment> \<open>what a later iteration writes\<close>
  "wrapped_target recipient encryptedKey parameters jwe =
     jwe\<lparr>gj_recipients := gj_recipients jwe
           @ [\<lparr>ro_header =
                  (if r_unprotectedHeader recipient \<noteq> None \<or> parameters \<noteq> None
                   then Some (ospread (ospread [] (r_unprotectedHeader recipient)) parameters)
                   else None),
                ro_encrypted_key = Some (base64url encryptedKey)\<rparr>]\<rparr>"

text \<open>
  One iteration of the second loop, for the recipient at index \<open>i\<close>. Reading
  \<^verbatim>\<open>startsWith\<close> off a value that is not a string, and encoding an
  \<^verbatim>\<open>encryptedKey\<close> that is undefined, throw a TypeError; a value of \<^verbatim>\<open>alg\<close> that is
  not a string is not passed on to the collaborators, whose model takes strings.
\<close>

definition wrap_recipient ::
  "'w provider \<Rightarrow> GeneralEncrypt \<Rightarrow> string \<Rightarrow> bytes \<Rightarrow> nat \<Rightarrow> IndividualRecipient
     \<Rightarrow> GeneralJWE \<Rightarrow> 'w world \<Rightarrow> (error + GeneralJWE) \<times> 'w world" where
  "wrap_recipient P this enc cek i recipient jwe s =
     (case read_prop (recipient_header this recipient) ''alg'' of
        JStr halg \<Rightarrow>
          if i = 0 then
            (case first_builder this recipient cek (p2c_for halg i) of
               (Some e, fe) \<Rightarrow> (Inl e, s)
             | (None, fe) \<Rightarrow>
                 (case FlattenedEncrypt_encrypt P (r_key recipient)
                         (recipient_options recipient) fe s of
                    (Inl e, fe', s1) \<Rightarrow> (Inl e, s1)
                  | (Inr flattened, fe', s1) \<Rightarrow> (Inr (first_target flattened jwe), s1)))
          else
            (case recipient_alg this recipient of
               JStr alg \<Rightarrow>
                 (case checkKeyType P (if alg = ''dir'' then enc else alg) (r_key recipient) of
                    Some e \<Rightarrow> (Inl e, s)
                  | None \<Rightarrow>
                      (case call_normalizeKey P (r_key recipient) alg s of
                         (Inl e, s1) \<Rightarrow> (Inl e, s1)
                       | (Inr k, s1) \<Rightarrow>
                           (case call_encryptKeyManagement P alg enc k (Some cek)
                                   (Some \<lparr>apu = None, apv = None, epk = None, kiv = None,
                                          p2c = p2c_for halg i, p2s = None\<rparr>) s1 of
                              (Inl e, s2) \<Rightarrow> (Inl e, s2)
                            | (Inr km, s2) \<Rightarrow>
                                (case km_encryptedKey km of
                                   None \<Rightarrow> (Inl TypeError, s2)
                                 | Some encryptedKey \<Rightarrow>
                                     (Inr (wrapped_target recipient encryptedKey
                                             (km_parameters km) jwe), s2)))))
             | _ \<Rightarrow> (Inl TypeError, s))
      | _ \<Rightarrow> (Inl TypeError, s))"

text \<open>The second loop, from index \<open>i\<close> on.\<close>

fun wrap_recipients ::
  "'w provider \<Rightarrow> GeneralEncrypt \<Rightarrow> string \<Rightarrow> bytes \<Rightarrow> nat \<Rightarrow> IndividualRecipient list
     \<Rightarrow> GeneralJWE \<Rightarrow> 'w world \<Rightarrow> (error + GeneralJWE) \<times> 'w world" where
  "wrap_recipients P this enc cek i [] jwe s = (Inr jwe, s)"
| "wrap_recipients P this enc cek i (recipient # rest) jwe s =
     (case wrap_recipient P this enc cek i recipient jwe s of
        (Inl e, s1) \<Rightarrow> (Inl e, s1)
      | (Inr jwe', s1) \<Rightarrow> wrap_recipients P this enc cek (Suc i) rest jwe' s1)"

definition single_jwe :: "FlattenedJWE \<Rightarrow> GeneralJWE" where
  "single_jwe flattened =
     \<lparr>gj_ciphertext = jwe_ciphertext flattened,
      gj_iv = jwe_iv flattened,
      gj_tag = jwe_tag flattened,
      gj_recipients = [\<lparr>ro_header = jwe_header flattened,
                        ro_encrypted_key = nonempty (jwe_encrypted_key flattened)\<rparr>],
      gj_aad = nonempty (jwe_aad flattened),
      gj_protected = nonempty (jwe_protected flattened),
      gj_unprotected = jwe_unprotected flattened\<rparr>"

definition GeneralEncrypt_encrypt ::
  "'w provider \<Rightarrow> GeneralEncrypt \<Rightarrow> 'w world \<Rightarrow> (error + GeneralJWE) \<times> 'w world" where
  "GeneralEncrypt_encrypt P this s =
     (case g_recipients this of
        [] \<Rightarrow> (Inl JWEInvalid, s)
      | [recipient] \<Rightarrow>
          (case single_builder this recipient of
             (Some e, fe) \<Rightarrow> (Inl e, s)
           | (None, fe) \<Rightarrow>
               (case FlattenedEncrypt_encrypt P (r_key recipient)
                       (recipient_options recipient) fe s of
                  (Inl e, fe', s1) \<Rightarrow> (Inl e, s1)
                | (Inr flattened, fe', s1) \<Rightarrow> (Inr (single_jwe flattened), s1)))
      | _ \<Rightarrow>
          (case check_recipients P this [] (g_recipients this) of
             Inl e \<Rightarrow> (Inl e, s)
           | Inr enc \<Rightarrow>
               (case call_generateCek P enc s of
                  (Inl e, s1) \<Rightarrow> (Inl e, s1)
                | (Inr cek, s1) \<Rightarrow>
                    wrap_recipients P this enc cek 0 (g_recipients this) empty_jwe s1)))"

subsection \<open>Reading the record of primitive calls\<close>

fun generated :: "event \<Rightarrow> (error + bytes) list" where
  \<comment> \<open>what a call of \<^verbatim>\<open>generateCek\<close> returned\<close>
  "generated (EvGenerateCek enc r) = [r]"
| "generated _ = []"

fun cek_given :: "event \<Rightarrow> bytes option list" where
  \<comment> \<open>the content-encryption key a call of \<^verbatim>\<open>encryptKeyManagement\<close> was given\<close>
  "cek_given (EvKeyManagement alg enc k c ps) = [c]"
| "cek_given _ = []"



section \<open>Concrete collaborators and inputs\<close>

text \<open>
  To run the model on concrete inputs the collaborators need values. \<open>example_provider\<close>
  is a deterministic stand-in: its platform state counts the random draws, key management
  hands back the content-encryption key it is given and a fixed wrapped key, and crit
  validation follows the spec's rule (every name listed in \<^verbatim>\<open>crit\<close> is in the merged
  header and in the caller's list).
\<close>

definition example_validateCrit ::
  "error \<Rightarrow> (string \<times> bool) list option \<Rightarrow> header option \<Rightarrow> header \<Rightarrow> error option" where
  "example_validateCrit Err recognized protectedHeader joseHeader =
     (case read_prop joseHeader ''crit'' of
        JUndefined \<Rightarrow> None
      | JArr xs \<Rightarrow>
          if list_all
               (\<lambda>x. case x of
                      JStr n \<Rightarrow> n \<in> set (names joseHeader)
                        \<and> n \<in> set (map fst (case recognized of None \<Rightarrow> [] | Some r \<Rightarrow> r))
                    | _ \<Rightarrow> False) xs
          then None else Some Err
      | _ \<Rightarrow> Some Err)"

definition example_provider :: "nat provider" where
  "example_provider =
     \<lparr>stringify = (\<lambda>h. ''{'' @ concat (map fst h) @ ''}''),
      validateCrit = example_validateCrit,
      checkKeyType = (\<lambda>alg k. None),
      generateIv = (\<lambda>enc w. (Inr (replicate 12 (word_of_nat w)), Suc w)),
      generateCek = (\<lambda>enc w. (Inr (replicate 16 (word_of_nat w)), Suc w)),
      encryptKeyManagement =
        (\<lambda>alg enc k c ps w.
           (Inr \<lparr>km_cek = (case c of Some b \<Rightarrow> Secret b | None \<Rightarrow> k),
                 km_encryptedKey = (if alg = ''dir'' then None else Some [1, 2, 3]),
                 km_parameters = None\<rparr>, w)),
      encrypt = (\<lambda>enc pt k iv ad w. (Inr (rev pt, take 2 ad), w)),
      deflate = (\<lambda>pt w. (Inr pt, w)),
      normalizeKey = (\<lambda>k alg w. (Inr k, w))\<rparr>"

definition no_options :: "nat options" where
  "no_options = \<lparr>crit = None, deflateRaw = None\<rparr>"

definition unencoded_jws :: verified where
  \<comment> \<open>what a successful verification of a JWS with an unencoded payload returns\<close>
  "unencoded_jws =
     \<lparr>v_payload = [123, 125],
      v_protectedHeader =
        [(''alg'', JStr ''HS256''), (''b64'', JBool False), (''crit'', JArr [JStr ''b64''])],
      v_key = None\<rparr>"

definition example_kmparams :: kmparams where
  "example_kmparams =
     \<lparr>apu = Some [1], apv = None, epk = None, kiv = None, p2c = None, p2s = None\<rparr>"

definition example_recipient :: IndividualRecipient where
  "example_recipient = \<lparr>r_unprotectedHeader = None, r_key = Secret [7], r_crit = None\<rparr>"

definition dir_header :: header where
  "dir_header = [(''alg'', JStr ''dir''), (''enc'', JStr ''A128GCM'')]"

definition kw_header :: header where
  "kw_header = [(''alg'', JStr ''A128KW''), (''enc'', JStr ''A128GCM'')]"

definition builder_with :: "header \<Rightarrow> FlattenedEncrypt" where
  \<comment> \<open>\<^verbatim>\<open>new FlattenedEncrypt(plaintext).setProtectedHeader(h)\<close>\<close>
  "builder_with h = snd (setProtectedHeader (Some h) (new_FlattenedEncrypt [104, 105]))"

definition zip_unprotected_builder :: FlattenedEncrypt where
  \<comment> \<open>\<^verbatim>\<open>zip\<close> in the per-recipient unprotected header only\<close>
  "zip_unprotected_builder =
     snd (setUnprotectedHeader (Some [(''zip'', JStr ''DEF'')]) (builder_with dir_header))"

definition zip_gz_builder :: FlattenedEncrypt where
  \<comment> \<open>a protected \<^verbatim>\<open>zip\<close> other than DEF\<close>
  "zip_gz_builder = builder_with (dir_header @ [(''zip'', JStr ''GZ'')])"

definition zip_empty_builder :: FlattenedEncrypt where
  \<comment> \<open>a protected \<^verbatim>\<open>zip\<close> that is the empty string\<close>
  "zip_empty_builder = builder_with (dir_header @ [(''zip'', JStr [])])"

definition dir_cek_builder :: FlattenedEncrypt where
  "dir_cek_builder = snd (setContentEncryptionKey (Some [1, 2]) (builder_with dir_header))"

definition empty_aad_builder :: FlattenedEncrypt where
  \<comment> \<open>\<^verbatim>\<open>setAdditionalAuthenticatedData(new Uint8Array(0))\<close>\<close>
  "empty_aad_builder =
     snd (setAdditionalAuthenticatedData (Some []) (builder_with dir_header))"

definition aad_builder :: FlattenedEncrypt where
  "aad_builder =
     snd (setAdditionalAuthenticatedData (Some [102, 111, 111]) (builder_with dir_header))"

definition overlap_builder :: FlattenedEncrypt where
  \<comment> \<open>\<^verbatim>\<open>enc\<close> in the protected and in the shared unprotected header\<close>
  "overlap_builder =
     snd (setSharedUnprotectedHeader (Some [(''enc'', JStr ''A256GCM'')])
            (builder_with dir_header))"

definition general_with :: "header option \<Rightarrow> header option list \<Rightarrow> GeneralEncrypt" where
  \<comment> \<open>a GeneralEncrypt with the given protected header and one recipient for each
     per-recipient header given\<close>
  "general_with ph hs =
     \<lparr>g_plaintext = [104, 105],
      g_recipients = map (\<lambda>h. \<lparr>r_unprotectedHeader = h, r_key = Secret [7], r_crit = None\<rparr>) hs,
      g_protectedHeader = ph, g_unprotectedHeader = None, g_aad = None\<rparr>"

definition recipient_with :: "header option \<Rightarrow> IndividualRecipient" where
  "recipient_with h = \<lparr>r_unprotectedHeader = h, r_key = Secret [7], r_crit = None\<rparr>"

definition dir_second :: GeneralEncrypt where
  \<comment> \<open>two recipients, the second with \<^verbatim>\<open>alg\<close> dir\<close>
  "dir_second =
     general_with (Some [(''enc'', JStr ''A128GCM'')])
       [Some [(''alg'', JStr ''A128KW'')], Some [(''alg'', JStr ''dir'')]]"

definition dir_second_after_zip :: GeneralEncrypt where
  \<comment> \<open>the same, with a \<^verbatim>\<open>zip\<close> parameter in the first recipient's header\<close>
  "dir_second_after_zip =
     general_with (Some [(''enc'', JStr ''A128GCM'')])
       [Some [(''alg'', JStr ''A128KW''), (''zip'', JStr ''DEF'')],
        Some [(''alg'', JStr ''dir'')]]"

definition dir_second_first_without_alg :: GeneralEncrypt where
  \<comment> \<open>two recipients, the first with \<^verbatim>\<open>zip\<close> and no \<^verbatim>\<open>alg\<close>, the second with
     \<^verbatim>\<open>alg\<close> dir\<close>
  "dir_second_first_without_alg =
     general_with (Some [(''enc'', JStr ''A128GCM'')])
       [Some [(''zip'', JStr ''DEF'')], Some [(''alg'', JStr ''dir'')]]"

definition enc_differs :: GeneralEncrypt where
  \<comment> \<open>two recipients with different \<^verbatim>\<open>enc\<close>\<close>
  "enc_differs =
     general_with (Some [(''alg'', JStr ''A128KW'')])
       [Some [(''enc'', JStr ''A128GCM'')], Some [(''enc'', JStr ''A256GCM'')]]"

definition enc_differs_with_zip :: GeneralEncrypt where
  \<comment> \<open>the same, with a \<^verbatim>\<open>zip\<close> parameter in the protected header\<close>
  "enc_differs_with_zip =
     general_with (Some [(''alg'', JStr ''A128KW''), (''zip'', JStr ''DEF'')])
       [Some [(''enc'', JStr ''A128GCM'')], Some [(''enc'', JStr ''A256GCM'')]]"

definition enc_differs_first_without_alg :: GeneralEncrypt where
  \<comment> \<open>two recipients with different \<^verbatim>\<open>enc\<close>, the first with \<^verbatim>\<open>zip\<close> and no
     \<^verbatim>\<open>alg\<close>\<close>
  "enc_differs_first_without_alg =
     general_with None
       [Some [(''enc'', JStr ''A128GCM''), (''zip'', JStr ''DEF'')],
        Some [(''alg'', JStr ''A128KW''), (''enc'', JStr ''A256GCM'')]]"

definition overlap_second :: GeneralEncrypt where
  \<comment> \<open>two recipients, the second repeating \<^verbatim>\<open>alg\<close> of the protected header\<close>
  "overlap_second = general_with (Some kw_header) [None, Some [(''alg'', JStr ''A128KW'')]]"

definition overlap_second_with_zip :: GeneralEncrypt where
  \<comment> \<open>the same, with a \<^verbatim>\<open>zip\<close> parameter in the protected header\<close>
  "overlap_second_with_zip =
     general_with (Some (kw_header @ [(''zip'', JStr ''DEF'')]))
       [None, Some [(''alg'', JStr ''A128KW'')]]"

definition overlap_second_first_without_alg :: GeneralEncrypt where
  \<comment> \<open>two recipients, the first with \<^verbatim>\<open>zip\<close> and no \<^verbatim>\<open>alg\<close>, the second
     repeating \<^verbatim>\<open>enc\<close> of the protected header\<close>
  "overlap_second_first_without_alg =
     general_with (Some [(''enc'', JStr ''A128GCM'')])
       [Some [(''zip'', JStr ''DEF'')],
        Some [(''alg'', JStr ''A128KW''), (''enc'', JStr ''A128GCM'')]]"



section \<open>Basic facts\<close>

lemma decoder_decode_encoder_encode: "decoder_decode (encoder_encode s) = s"
proof -
  have "char_of (unat (word_of_nat (of_char c) :: 8 word)) = c" for c :: char
  proof -
    have "(of_char c :: nat) < 256" by (rule nat_of_char_less_256)
    then have "unat (word_of_nat (of_char c) :: 8 word) = of_char c"
      by (simp add: unat_of_nat)
    then show ?thesis by simp
  qed
  then show ?thesis
    by (simp add: decoder_decode_def encoder_encode_def comp_def)
qed

lemma shift_left_3_small:
  assumes "l < 2 ^ 28"
  shows "sint (push_bit 3 (word_of_nat l :: 32 word)) = 8 * int l"
proof -
  have a: "push_bit 3 (word_of_nat l :: 32 word) = word_of_int (8 * int l)"
    by (simp add: push_bit_eq_mult)
  have b: "sint (word_of_int (8 * int l) :: 32 word)
             = signed_take_bit (LENGTH(32) - 1) (8 * int l)"
    by (rule sint_sbintrunc')
  have c: "signed_take_bit 31 (8 * int l) = 8 * int l"
    using assms by (intro signed_take_bit_int_eq_self) auto
  show ?thesis
    unfolding a b using c by simp
qed

section \<open>The IV length check\<close>

text \<open>
  Below \<open>2 ^ 28\<close> bytes the shift does not wrap, and the check is exact: it passes when
  the IV has the mandated number of bits and throws JWEInvalid otherwise. It is a pure
  function: no primitive is called.
\<close>

theorem checkIvLength_exact_below_wrap:
  assumes "length iv < 2 ^ 28" and "bitLength enc = Inr n"
  shows "checkIvLength bitLength enc iv
           = (if 8 * int (length iv) = n then Inr () else Inl JWEInvalid)"
  using assms by (simp add: checkIvLength_def shift_left_3_small)

theorem checkIvLength_exact_below_wrap_witness:
  "length (replicate 12 (0 :: 8 word)) < 2 ^ 28
   \<and> bitLength_A128GCM ''A128GCM'' = Inr 96
   \<and> checkIvLength bitLength_A128GCM ''A128GCM'' (replicate 12 0) = Inr ()
   \<and> checkIvLength bitLength_A128GCM ''A128GCM'' (replicate 16 0) = Inl JWEInvalid"
  using checkIvLength_exact_below_wrap [of "replicate 12 0" bitLength_A128GCM "''A128GCM''" 96]
    checkIvLength_exact_below_wrap [of "replicate 16 0" bitLength_A128GCM "''A128GCM''" 96]
  by (simp add: bitLength_A128GCM_def)

text \<open>
  C8. The claim: an IV whose length in bits differs from the mandated length fails the
  check. The length is shifted as a 32-bit integer, so an IV of \<open>2 ^ 29 + 12\<close> bytes
  (4294967392 bits) is taken for one of 96 bits and passes the check for A128GCM.
\<close>

theorem checkIvLength_wraps_at_32_bits:
  "checkIvLength bitLength_A128GCM ''A128GCM'' (replicate 536870924 0) = Inr ()"
  by (simp add: checkIvLength_def bitLength_A128GCM_def)

section \<open>jwtVerify\<close>

text \<open>
  C10. When the verified protected header has a \<^verbatim>\<open>crit\<close> array that includes
  \<^verbatim>\<open>"b64"\<close> and \<^verbatim>\<open>b64\<close> is \<^verbatim>\<open>false\<close>, jwtVerify throws JWTInvalid although the
  signature verification succeeded, whatever the key, the options and the claims
  validation are.
\<close>

theorem jwtVerify_rejects_unencoded_payload:
  assumes "compactVerify jwt k options = Inr verified"
    and "read_prop (v_protectedHeader verified) ''crit'' = JArr xs"
    and "JStr ''b64'' \<in> set xs"
    and "read_prop (v_protectedHeader verified) ''b64'' = JBool False"
  shows "jwtVerify compactVerify jwtPayload jwt k options = Inl JWTInvalid"
  using assms by (simp add: jwtVerify_def includes_b64_def)

theorem jwtVerify_rejects_unencoded_payload_witness:
  "jwtVerify (\<lambda>jwt k (options :: unit). Inr unencoded_jws) (\<lambda>h p options. Inr p)
     ''a.b.c'' (KeyArg (Secret [1]) :: unit keyarg) () = Inl JWTInvalid"
  using jwtVerify_rejects_unencoded_payload
    [of "\<lambda>jwt k (options :: unit). Inr unencoded_jws" "''a.b.c''"
        "KeyArg (Secret [1]) :: unit keyarg" "()" unencoded_jws "[JStr ''b64'']"
        "\<lambda>h p options. Inr p"]
  by (simp add: unencoded_jws_def read_prop_def)

section \<open>The set-once guards\<close>

lemma setKeyManagementParameters_once:
  "fst (setKeyManagementParameters (Some p) f) = None \<longrightarrow>
      f_keyManagementParameters (snd (setKeyManagementParameters (Some p) f)) = Some p
      \<and> setKeyManagementParameters (Some p2) (snd (setKeyManagementParameters (Some p) f))
          = (Some TypeError, snd (setKeyManagementParameters (Some p) f))"
  by (simp add: setKeyManagementParameters_def)

lemma setProtectedHeader_once:
  "fst (setProtectedHeader (Some h) f) = None \<longrightarrow>
      f_protectedHeader (snd (setProtectedHeader (Some h) f)) = Some h
      \<and> setProtectedHeader (Some h2) (snd (setProtectedHeader (Some h) f))
          = (Some TypeError, snd (setProtectedHeader (Some h) f))"
  by (simp add: setProtectedHeader_def)

lemma setSharedUnprotectedHeader_once:
  "fst (setSharedUnprotectedHeader (Some h) f) = None \<longrightarrow>
      f_sharedUnprotectedHeader (snd (setSharedUnprotectedHeader (Some h) f)) = Some h
      \<and> setSharedUnprotectedHeader (Some h2) (snd (setSharedUnprotectedHeader (Some h) f))
          = (Some TypeError, snd (setSharedUnprotectedHeader (Some h) f))"
  by (simp add: setSharedUnprotectedHeader_def)

lemma setUnprotectedHeader_once:
  "fst (setUnprotectedHeader (Some h) f) = None \<longrightarrow>
      f_unprotectedHeader (snd (setUnprotectedHeader (Some h) f)) = Some h
      \<and> setUnprotectedHeader (Some h2) (snd (setUnprotectedHeader (Some h) f))
          = (Some TypeError, snd (setUnprotectedHeader (Some h) f))"
  by (simp add: setUnprotectedHeader_def)

lemma setContentEncryptionKey_once:
  "fst (setContentEncryptionKey (Some b) f) = None \<longrightarrow>
      f_cek (snd (setContentEncryptionKey (Some b) f)) = Some b
      \<and> setContentEncryptionKey (Some b2) (snd (setContentEncryptionKey (Some b) f))
          = (Some TypeError, snd (setContentEncryptionKey (Some b) f))"
  by (simp add: setContentEncryptionKey_def)

lemma setInitializationVector_once:
  "fst (setInitializationVector (Some b) f) = None \<longrightarrow>
      f_iv (snd (setInitializationVector (Some b) f)) = Some b
      \<and> setInitializationVector (Some b2) (snd (setInitializationVector (Some b) f))
          = (Some TypeError, snd (setInitializationVector (Some b) f))"
  by (simp add: setInitializationVector_def)

lemma General_setProtectedHeader_once:
  "fst (General_setProtectedHeader (Some h) g) = None \<longrightarrow>
      g_protectedHeader (snd (General_setProtectedHeader (Some h) g)) = Some h
      \<and> General_setProtectedHeader (Some h2) (snd (General_setProtectedHeader (Some h) g))
          = (Some TypeError, snd (General_setProtectedHeader (Some h) g))"
  by (simp add: General_setProtectedHeader_def)

lemma General_setSharedUnprotectedHeader_once:
  "fst (General_setSharedUnprotectedHeader (Some h) g) = None \<longrightarrow>
      g_unprotectedHeader (snd (General_setSharedUnprotectedHeader (Some h) g)) = Some h
      \<and> General_setSharedUnprotectedHeader (Some h2) (snd (General_setSharedUnprotectedHeader (Some h) g))
          = (Some TypeError, snd (General_setSharedUnprotectedHeader (Some h) g))"
  by (simp add: General_setSharedUnprotectedHeader_def)

lemma Recipient_setUnprotectedHeader_once:
  "fst (Recipient_setUnprotectedHeader (Some h) r) = None \<longrightarrow>
      r_unprotectedHeader (snd (Recipient_setUnprotectedHeader (Some h) r)) = Some h
      \<and> Recipient_setUnprotectedHeader (Some h2) (snd (Recipient_setUnprotectedHeader (Some h) r))
          = (Some TypeError, snd (Recipient_setUnprotectedHeader (Some h) r))"
  by (simp add: Recipient_setUnprotectedHeader_def)

text \<open>
  C3, as the code has it. Every setter but setAdditionalAuthenticatedData is guarded: once
  a call has set the slot, it holds the value given, and a second call throws a TypeError
  and leaves the instance as it was. This holds for the six guarded setters of
  FlattenedEncrypt, the two of GeneralEncrypt and the one of a recipient.
  setAdditionalAuthenticatedData, of either class, has no guard: a second call succeeds and
  replaces the value.
\<close>

theorem guarded_setters_set_once:
  "(fst (setKeyManagementParameters (Some p) f) = None \<longrightarrow>
      f_keyManagementParameters (snd (setKeyManagementParameters (Some p) f)) = Some p
      \<and> setKeyManagementParameters (Some p2) (snd (setKeyManagementParameters (Some p) f))
          = (Some TypeError, snd (setKeyManagementParameters (Some p) f)))
   \<and> (fst (setProtectedHeader (Some h) f) = None \<longrightarrow>
      f_protectedHeader (snd (setProtectedHeader (Some h) f)) = Some h
      \<and> setProtectedHeader (Some h2) (snd (setProtectedHeader (Some h) f))
          = (Some TypeError, snd (setProtectedHeader (Some h) f)))
   \<and> (fst (setSharedUnprotectedHeader (Some h) f) = None \<longrightarrow>
      f_sharedUnprotectedHeader (snd (setSharedUnprotectedHeader (Some h) f)) = Some h
      \<and> setSharedUnprotectedHeader (Some h2) (snd (setSharedUnprotectedHeader (Some h) f))
          = (Some TypeError, snd (setSharedUnprotectedHeader (Some h) f)))
   \<and> (fst (setUnprotectedHeader (Some h) f) = None \<longrightarrow>
      f_unprotectedHeader (snd (setUnprotectedHeader (Some h) f)) = Some h
      \<and> setUnprotectedHeader (Some h2) (snd (setUnprotectedHeader (Some h) f))
          = (Some TypeError, snd (setUnprotectedHeader (Some h) f)))
   \<and> (fst (setContentEncryptionKey (Some b) f) = None \<longrightarrow>
      f_cek (snd (setContentEncryptionKey (Some b) f)) = Some b
      \<and> setContentEncryptionKey (Some b2) (snd (setContentEncryptionKey (Some b) f))
          = (Some TypeError, snd (setContentEncryptionKey (Some b) f)))
   \<and> (fst (setInitializationVector (Some b) f) = None \<longrightarrow>
      f_iv (snd (setInitializationVector (Some b) f)) = Some b
      \<and> setInitializationVector (Some b2) (snd (setInitializationVector (Some b) f))
          = (Some TypeError, snd (setInitializationVector (Some b) f)))
   \<and> (fst (General_setProtectedHeader (Some h) g) = None \<longrightarrow>
      g_protectedHeader (snd (General_setProtectedHeader (Some h) g)) = Some h
      \<and> General_setProtectedHeader (Some h2) (snd (General_setProtectedHeader (Some h) g))
          = (Some TypeError, snd (General_setProtectedHeader (Some h) g)))
   \<and> (fst (General_setSharedUnprotectedHeader (Some h) g) = None \<longrightarrow>
      g_unprotectedHeader (snd (General_setSharedUnprotectedHeader (Some h) g)) = Some h
      \<and> General_setSharedUnprotectedHeader (Some h2) (snd (General_setSharedUnprotectedHeader (Some h) g))
          = (Some TypeError, snd (General_setSharedUnprotectedHeader (Some h) g)))
   \<and> (fst (Recipient_setUnprotectedHeader (Some h) r) = None \<longrightarrow>
      r_unprotectedHeader (snd (Recipient_setUnprotectedHeader (Some h) r)) = Some h
      \<and> Recipient_setUnprotectedHeader (Some h2) (snd (Recipient_setUnprotectedHeader (Some h) r))
          = (Some TypeError, snd (Recipient_setUnprotectedHeader (Some h) r)))
   \<and> setAdditionalAuthenticatedData (Some b2)
        (snd (setAdditionalAuthenticatedData (Some b) f))
      = (None, f\<lparr>f_aad := Some b2\<rparr>)
   \<and> General_setAdditionalAuthenticatedData (Some b2)
        (snd (General_setAdditionalAuthenticatedData (Some b) g))
      = (None, g\<lparr>g_aad := Some b2\<rparr>)"
proof -
  have a: "setAdditionalAuthenticatedData (Some b2)
        (snd (setAdditionalAuthenticatedData (Some b) f))
      = (None, f\<lparr>f_aad := Some b2\<rparr>)"
    by (simp add: setAdditionalAuthenticatedData_def)
  have g: "General_setAdditionalAuthenticatedData (Some b2)
        (snd (General_setAdditionalAuthenticatedData (Some b) g))
      = (None, g\<lparr>g_aad := Some b2\<rparr>)"
    by (simp add: General_setAdditionalAuthenticatedData_def)
  show ?thesis
    by (intro conjI setKeyManagementParameters_once setProtectedHeader_once
        setSharedUnprotectedHeader_once setUnprotectedHeader_once
        setContentEncryptionKey_once setInitializationVector_once
        General_setProtectedHeader_once General_setSharedUnprotectedHeader_once
        Recipient_setUnprotectedHeader_once a g)
qed

text \<open>On fresh instances every first call succeeds, and every second call of a guarded
  setter throws.\<close>

theorem guarded_setters_set_once_witness:
  "fst (setKeyManagementParameters (Some example_kmparams) (new_FlattenedEncrypt [])) = None
   \<and> f_keyManagementParameters (snd (setKeyManagementParameters (Some example_kmparams) (new_FlattenedEncrypt []))) = Some example_kmparams
   \<and> fst (setKeyManagementParameters (Some (example_kmparams\<lparr>p2c := Some 1\<rparr>)) (snd (setKeyManagementParameters (Some example_kmparams) (new_FlattenedEncrypt [])))) = Some TypeError
   \<and> f_keyManagementParameters (snd (setKeyManagementParameters (Some (example_kmparams\<lparr>p2c := Some 1\<rparr>)) (snd (setKeyManagementParameters (Some example_kmparams) (new_FlattenedEncrypt []))))) = Some example_kmparams
   \<and> fst (setProtectedHeader (Some [(''alg'', JStr ''dir'')]) (new_FlattenedEncrypt [])) = None
   \<and> f_protectedHeader (snd (setProtectedHeader (Some [(''alg'', JStr ''dir'')]) (new_FlattenedEncrypt []))) = Some [(''alg'', JStr ''dir'')]
   \<and> fst (setProtectedHeader (Some []) (snd (setProtectedHeader (Some [(''alg'', JStr ''dir'')]) (new_FlattenedEncrypt [])))) = Some TypeError
   \<and> f_protectedHeader (snd (setProtectedHeader (Some []) (snd (setProtectedHeader (Some [(''alg'', JStr ''dir'')]) (new_FlattenedEncrypt []))))) = Some [(''alg'', JStr ''dir'')]
   \<and> fst (setSharedUnprotectedHeader (Some [(''alg'', JStr ''dir'')]) (new_FlattenedEncrypt [])) = None
   \<and> f_sharedUnprotectedHeader (snd (setSharedUnprotectedHeader (Some [(''alg'', JStr ''dir'')]) (new_FlattenedEncrypt []))) = Some [(''alg'', JStr ''dir'')]
   \<and> fst (setSharedUnprotectedHeader (Some []) (snd (setSharedUnprotectedHeader (Some [(''alg'', JStr ''dir'')]) (new_FlattenedEncrypt [])))) = Some TypeError
   \<and> f_sharedUnprotectedHeader (snd (setSharedUnprotectedHeader (Some []) (snd (setSharedUnprotectedHeader (Some [(''alg'', JStr ''dir'')]) (new_FlattenedEncrypt []))))) = Some [(''alg'', JStr ''dir'')]
   \<and> fst (setUnprotectedHeader (Some [(''alg'', JStr ''dir'')]) (new_FlattenedEncrypt [])) = None
   \<and> f_unprotectedHeader (snd (setUnprotectedHeader (Some [(''alg'', JStr ''dir'')]) (new_FlattenedEncrypt []))) = Some [(''alg'', JStr ''dir'')]
   \<and> fst (setUnprotectedHeader (Some []) (snd (setUnprotectedHeader (Some [(''alg'', JStr ''dir'')]) (new_FlattenedEncrypt [])))) = Some TypeError
   \<and> f_unprotectedHeader (snd (setUnprotectedHeader (Some []) (snd (setUnprotectedHeader (Some [(''alg'', JStr ''dir'')]) (new_FlattenedEncrypt []))))) = Some [(''alg'', JStr ''dir'')]
   \<and> fst (setContentEncryptionKey (Some [1]) (new_FlattenedEncrypt [])) = None
   \<and> f_cek (snd (setContentEncryptionKey (Some [1]) (new_FlattenedEncrypt []))) = Some [1]
   \<and> fst (setContentEncryptionKey (Some [2]) (snd (setContentEncryptionKey (Some [1]) (new_FlattenedEncrypt [])))) = Some TypeError
   \<and> f_cek (snd (setContentEncryptionKey (Some [2]) (snd (setContentEncryptionKey (Some [1]) (new_FlattenedEncrypt []))))) = Some [1]
   \<and> fst (setInitializationVector (Some [1]) (new_FlattenedEncrypt [])) = None
   \<and> f_iv (snd (setInitializationVector (Some [1]) (new_FlattenedEncrypt []))) = Some [1]
   \<and> fst (setInitializationVector (Some [2]) (snd (setInitializationVector (Some [1]) (new_FlattenedEncrypt [])))) = Some TypeError
   \<and> f_iv (snd (setInitializationVector (Some [2]) (snd (setInitializationVector (Some [1]) (new_FlattenedEncrypt []))))) = Some [1]
   \<and> fst (General_setProtectedHeader (Some [(''alg'', JStr ''dir'')]) (new_GeneralEncrypt [])) = None
   \<and> g_protectedHeader (snd (General_setProtectedHeader (Some [(''alg'', JStr ''dir'')]) (new_GeneralEncrypt []))) = Some [(''alg'', JStr ''dir'')]
   \<and> fst (General_setProtectedHeader (Some []) (snd (General_setProtectedHeader (Some [(''alg'', JStr ''dir'')]) (new_GeneralEncrypt [])))) = Some TypeError
   \<and> g_protectedHeader (snd (General_setProtectedHeader (Some []) (snd (General_setProtectedHeader (Some [(''alg'', JStr ''dir'')]) (new_GeneralEncrypt []))))) = Some [(''alg'', JStr ''dir'')]
   \<and> fst (General_setSharedUnprotectedHeader (Some [(''alg'', JStr ''dir'')]) (new_GeneralEncrypt [])) = None
   \<and> g_unprotectedHeader (snd (General_setSharedUnprotectedHeader (Some [(''alg'', JStr ''dir'')]) (new_GeneralEncrypt []))) = Some [(''alg'', JStr ''dir'')]
   \<and> fst (General_setSharedUnprotectedHeader (Some []) (snd (General_setSharedUnprotectedHeader (Some [(''alg'', JStr ''dir'')]) (new_GeneralEncrypt [])))) = Some TypeError
   \<and> g_unprotectedHeader (snd (General_setSharedUnprotectedHeader (Some []) (snd (General_setSharedUnprotectedHeader (Some [(''alg'', JStr ''dir'')]) (new_GeneralEncrypt []))))) = Some [(''alg'', JStr ''dir'')]
   \<and> fst (Recipient_setUnprotectedHeader (Some [(''alg'', JStr ''dir'')]) example_recipient) = None
   \<and> r_unprotectedHeader (snd (Recipient_setUnprotectedHeader (Some [(''alg'', JStr ''dir'')]) example_recipient)) = Some [(''alg'', JStr ''dir'')]
   \<and> fst (Recipient_setUnprotectedHeader (Some []) (snd (Recipient_setUnprotectedHeader (Some [(''alg'', JStr ''dir'')]) example_recipient))) = Some TypeError
   \<and> r_unprotectedHeader (snd (Recipient_setUnprotectedHeader (Some []) (snd (Recipient_setUnprotectedHeader (Some [(''alg'', JStr ''dir'')]) example_recipient)))) = Some [(''alg'', JStr ''dir'')]"
  using guarded_setters_set_once
    [of example_kmparams "new_FlattenedEncrypt []"
        "example_kmparams\<lparr>p2c := Some 1\<rparr>" "[(''alg'', JStr ''dir'')]" "[]" "[1]" "[2]"
        "new_GeneralEncrypt []" example_recipient]
  by (simp add: setKeyManagementParameters_def setProtectedHeader_def
      setSharedUnprotectedHeader_def setUnprotectedHeader_def setContentEncryptionKey_def
      setInitializationVector_def General_setProtectedHeader_def
      General_setSharedUnprotectedHeader_def Recipient_setUnprotectedHeader_def
      new_FlattenedEncrypt_def new_GeneralEncrypt_def example_recipient_def)

text \<open>C3 as stated fails for setAdditionalAuthenticatedData: a second call on the same
  instance does not throw, and the value of the first call is gone.\<close>

theorem setAdditionalAuthenticatedData_twice_counterexample:
  "fst (setAdditionalAuthenticatedData (Some [2])
          (snd (setAdditionalAuthenticatedData (Some [1]) (new_FlattenedEncrypt [])))) = None
   \<and> f_aad (snd (setAdditionalAuthenticatedData (Some [2])
          (snd (setAdditionalAuthenticatedData (Some [1]) (new_FlattenedEncrypt [])))))
      = Some [2]"
  by (simp add: setAdditionalAuthenticatedData_def)

section \<open>FlattenedEncrypt.encrypt: what is rejected before any primitive runs\<close>

lemmas eval_defs =
  read_prop_def read_opt_def spread_def ospread_def spread3_def names_def slot_names_def
  isDisjoint_def string_param_def joseHeader_of_def recipient_header_def
  new_FlattenedEncrypt_def setProtectedHeader_def setSharedUnprotectedHeader_def
  setUnprotectedHeader_def setAdditionalAuthenticatedData_def setContentEncryptionKey_def
  setInitializationVector_def setKeyManagementParameters_def and_then_def
  example_provider_def example_validateCrit_def no_options_def builder_with_def
  dir_header_def kw_header_def

lemma isDisjoint3:
  "isDisjoint [a, b, c] \<longleftrightarrow>
     slot_names a \<inter> slot_names b = {} \<and> slot_names a \<inter> slot_names c = {}
     \<and> slot_names b \<inter> slot_names c = {}"
  by (auto simp: isDisjoint_def slot_names_def split: option.splits)

lemma spread_absent: "k \<notin> set (names b) \<Longrightarrow> map_of (spread a b) k = map_of a k"
  unfolding spread_def names_def
  by (induction b arbitrary: a) (auto simp: update_conv')

lemma spread_present:
  "distinct (names b) \<Longrightarrow> map_of b k = Some v \<Longrightarrow> map_of (spread a b) k = Some v"
  unfolding spread_def names_def
proof (induction b arbitrary: a)
  case Nil
  then show ?case by simp
next
  case (Cons x xs)
  obtain k' v' where x: "x = (k', v')" by (cases x)
  show ?case
  proof (cases "k' = k")
    case True
    with Cons.prems x have "v' = v" and "k \<notin> set (map fst xs)" by auto
    then have "map_of (foldl (\<lambda>acc (k, v). AList.update k v acc) (AList.update k v a) xs) k
                 = map_of (AList.update k v a) k"
      using spread_absent [of k xs "AList.update k v a"] by (simp add: spread_def names_def)
    with True x \<open>v' = v\<close> show ?thesis by (simp add: update_conv')
  next
    case False
    with Cons.prems x have "distinct (map fst xs)" and "map_of xs k = Some v" by auto
    from Cons.IH [OF this] x show ?thesis by simp
  qed
qed

lemma ospread_absent: "k \<notin> slot_names b \<Longrightarrow> map_of (ospread a b) k = map_of a k"
  by (cases b) (simp_all add: ospread_def slot_names_def spread_absent)

lemma encrypt_checks_fail:
  "encrypt_checks P opts this = Inl e
     \<Longrightarrow> FlattenedEncrypt_encrypt P k opts this s = (Inl e, this, s)"
  by (simp add: FlattenedEncrypt_encrypt_def)

lemma string_param_Some: "string_param v = Some a \<longleftrightarrow> v = JStr a \<and> a \<noteq> []"
  by (cases v) (auto simp: string_param_def)

lemma flattened_overlap_rejected:
  assumes "slot_names (f_protectedHeader this) \<inter> slot_names (f_unprotectedHeader this) \<noteq> {}
           \<or> slot_names (f_protectedHeader this)
                \<inter> slot_names (f_sharedUnprotectedHeader this) \<noteq> {}
           \<or> slot_names (f_unprotectedHeader this)
                \<inter> slot_names (f_sharedUnprotectedHeader this) \<noteq> {}"
  shows "FlattenedEncrypt_encrypt P k opts this s = (Inl JWEInvalid, this, s)"
proof -
  have "\<not> isDisjoint [f_protectedHeader this, f_unprotectedHeader this,
                        f_sharedUnprotectedHeader this]"
    using assms unfolding isDisjoint3 by blast
  then have "encrypt_checks P opts this = Inl JWEInvalid"
    by (simp add: encrypt_checks_def)
  then show ?thesis by (rule encrypt_checks_fail)
qed

text \<open>
  C5. With a content-encryption key set by the caller and \<^verbatim>\<open>alg\<close> of the merged
  header \<^verbatim>\<open>dir\<close> or \<^verbatim>\<open>ECDH-ES\<close>, encrypt throws; the instance, the platform state
  and the record of primitive calls are as before the call, so key management did not
  run.
\<close>

theorem explicit_cek_rejected_for_direct_algorithms:
  assumes "f_cek this = Some c"
    and "read_prop (joseHeader_of this) ''alg'' = JStr ''dir''
         \<or> read_prop (joseHeader_of this) ''alg'' = JStr ''ECDH-ES''"
  shows "\<exists>e. FlattenedEncrypt_encrypt P k opts this s = (Inl e, this, s)"
proof -
  have "\<exists>e. encrypt_checks P opts this = Inl e"
    using assms
    by (auto simp: encrypt_checks_def string_param_def split: option.splits)
  then show ?thesis
    by (auto simp: encrypt_checks_fail)
qed

theorem explicit_cek_rejected_for_direct_algorithms_witness:
  "f_cek dir_cek_builder = Some [1, 2]
   \<and> read_prop (joseHeader_of dir_cek_builder) ''alg'' = JStr ''dir''
   \<and> FlattenedEncrypt_encrypt example_provider (Secret [9]) no_options dir_cek_builder (0, [])
       = (Inl TypeError, dir_cek_builder, (0, []))"
proof -
  have c: "f_cek dir_cek_builder = Some [1, 2]"
    by (simp add: dir_cek_builder_def eval_defs)
  have a: "read_prop (joseHeader_of dir_cek_builder) ''alg'' = JStr ''dir''"
    by (simp add: dir_cek_builder_def eval_defs)
  from explicit_cek_rejected_for_direct_algorithms [OF c disjI1 [OF a]]
  obtain e where e: "FlattenedEncrypt_encrypt example_provider (Secret [9]) no_options
                       dir_cek_builder (0, []) = (Inl e, dir_cek_builder, (0, []))"
    by blast
  have "encrypt_checks example_provider no_options dir_cek_builder = Inl TypeError"
    by (simp add: encrypt_checks_def dir_cek_builder_def eval_defs)
  then have "e = TypeError"
    using e by (simp add: FlattenedEncrypt_encrypt_def)
  with c a e show ?thesis by simp
qed

subsection \<open>The zip parameter\<close>

lemma zip_unprotected_fails:
  assumes "read_prop (joseHeader_of this) ''zip'' \<noteq> JUndefined"
    and "\<not> truthy (read_opt (f_protectedHeader this) ''zip'')"
  shows "\<exists>e. FlattenedEncrypt_encrypt P k opts this s = (Inl e, this, s)
             \<and> (e = JWEInvalid
                  \<or> validateCrit P JWEInvalid (crit opts) (f_protectedHeader this)
                       (joseHeader_of this) = Some e)"
proof -
  have "\<exists>e. encrypt_checks P opts this = Inl e
             \<and> (e = JWEInvalid
                  \<or> validateCrit P JWEInvalid (crit opts) (f_protectedHeader this)
                       (joseHeader_of this) = Some e)"
    using assms by (auto simp: encrypt_checks_def split: option.splits)
  then show ?thesis
    by (auto simp: encrypt_checks_fail)
qed

lemma zip_unsupported_fails:
  assumes "read_prop (joseHeader_of this) ''zip'' \<noteq> JUndefined"
    and "truthy (read_opt (f_protectedHeader this) ''zip'')"
    and "read_prop (joseHeader_of this) ''zip'' \<noteq> JStr ''DEF''"
  shows "\<exists>e. FlattenedEncrypt_encrypt P k opts this s = (Inl e, this, s)
             \<and> (isDisjoint [f_protectedHeader this, f_unprotectedHeader this,
                            f_sharedUnprotectedHeader this]
                  \<and> validateCrit P JWEInvalid (crit opts) (f_protectedHeader this)
                       (joseHeader_of this) = None
                \<longrightarrow> e = JOSENotSupported)"
proof -
  have "f_protectedHeader this \<noteq> None"
    using assms(2) by (cases "f_protectedHeader this") (simp_all add: read_opt_def)
  then have "\<exists>e. encrypt_checks P opts this = Inl e
             \<and> (isDisjoint [f_protectedHeader this, f_unprotectedHeader this,
                            f_sharedUnprotectedHeader this]
                  \<and> validateCrit P JWEInvalid (crit opts) (f_protectedHeader this)
                       (joseHeader_of this) = None
                \<longrightarrow> e = JOSENotSupported)"
    using assms by (auto simp: encrypt_checks_def split: option.splits)
  then show ?thesis
    by (auto simp: encrypt_checks_fail)
qed

lemma zip_slot_merged:
  assumes dis: "isDisjoint [p, u, h]"
    and "(\<exists>uh. u = Some uh \<and> distinct (names uh) \<and> read_prop uh ''zip'' \<noteq> JUndefined)
         \<or> (\<exists>sh. h = Some sh \<and> distinct (names sh) \<and> read_prop sh ''zip'' \<noteq> JUndefined)"
  shows "read_prop (spread3 p u h) ''zip'' \<noteq> JUndefined"
  using assms(2)
proof
  assume "\<exists>uh. u = Some uh \<and> distinct (names uh) \<and> read_prop uh ''zip'' \<noteq> JUndefined"
  then obtain uh v where u: "u = Some uh" "distinct (names uh)"
    and v: "map_of uh ''zip'' = Some v" "v \<noteq> JUndefined"
    by (auto simp: read_prop_def split: option.splits)
  from v have "''zip'' \<in> slot_names u"
    using u by (auto simp: slot_names_def names_def dest: map_of_SomeD intro: rev_image_eqI)
  with dis have "''zip'' \<notin> slot_names h"
    unfolding isDisjoint3 by blast
  then have "map_of (spread3 p u h) ''zip'' = map_of (ospread (ospread [] p) u) ''zip''"
    by (simp add: spread3_def ospread_absent)
  also have "\<dots> = Some v"
    using u v by (simp add: ospread_def spread_present)
  finally show ?thesis using v by (simp add: read_prop_def)
next
  assume "\<exists>sh. h = Some sh \<and> distinct (names sh) \<and> read_prop sh ''zip'' \<noteq> JUndefined"
  then obtain sh v where h: "h = Some sh" "distinct (names sh)"
    and v: "map_of sh ''zip'' = Some v" "v \<noteq> JUndefined"
    by (auto simp: read_prop_def split: option.splits)
  have "map_of (spread3 p u h) ''zip'' = Some v"
    using h v by (simp add: spread3_def ospread_def spread_present)
  then show ?thesis using v by (simp add: read_prop_def)
qed

lemma zip_only_unprotected_fails:
  assumes "''zip'' \<notin> slot_names (f_protectedHeader this)"
    and "(\<exists>uh. f_unprotectedHeader this = Some uh \<and> distinct (names uh)
                \<and> read_prop uh ''zip'' \<noteq> JUndefined)
         \<or> (\<exists>sh. f_sharedUnprotectedHeader this = Some sh \<and> distinct (names sh)
                \<and> read_prop sh ''zip'' \<noteq> JUndefined)"
  shows "\<exists>e. FlattenedEncrypt_encrypt P k opts this s = (Inl e, this, s)"
proof (cases "isDisjoint [f_protectedHeader this, f_unprotectedHeader this,
                          f_sharedUnprotectedHeader this]")
  case True
  from zip_slot_merged [OF True assms(2)]
  have m: "read_prop (joseHeader_of this) ''zip'' \<noteq> JUndefined"
    by (simp add: joseHeader_of_def)
  have "read_opt (f_protectedHeader this) ''zip'' = JUndefined"
  proof (cases "f_protectedHeader this")
    case None
    then show ?thesis by (simp add: read_opt_def)
  next
    case (Some ph)
    with assms(1) have "map_of ph ''zip'' = None"
      by (simp add: slot_names_def names_def map_of_eq_None_iff)
    with Some show ?thesis by (simp add: read_opt_def read_prop_def)
  qed
  then have "\<not> truthy (read_opt (f_protectedHeader this) ''zip'')" by simp
  from zip_unprotected_fails [OF m this] show ?thesis by blast
next
  case False
  then have "encrypt_checks P opts this = Inl JWEInvalid"
    by (simp add: encrypt_checks_def)
  then show ?thesis by (auto simp: encrypt_checks_fail)
qed

text \<open>
  C7, as the code has it. A merged header with a \<^verbatim>\<open>zip\<close> parameter is accepted only
  when the protected header carries a truthy \<^verbatim>\<open>zip\<close> and the merged value is
  \<^verbatim>\<open>"DEF"\<close>. Otherwise encrypt throws before any primitive runs:
  \<^item> when the protected header is unset or its \<^verbatim>\<open>zip\<close> is absent or falsy (the empty
    string included), JWEInvalid, unless crit validation threw first;
  \<^item> when the protected \<^verbatim>\<open>zip\<close> is truthy and the merged value is not \<^verbatim>\<open>"DEF"\<close>,
    JOSENotSupported once the headers are disjoint and crit validation passes;
  \<^item> a \<^verbatim>\<open>zip\<close> that only the shared or the per-recipient unprotected header carries is
    always rejected.
\<close>

theorem zip_placement_flattened:
  "(read_prop (joseHeader_of this) ''zip'' \<noteq> JUndefined
      \<and> \<not> truthy (read_opt (f_protectedHeader this) ''zip'')
    \<longrightarrow> (\<exists>e. FlattenedEncrypt_encrypt P k opts this s = (Inl e, this, s)
             \<and> (e = JWEInvalid
                  \<or> validateCrit P JWEInvalid (crit opts) (f_protectedHeader this)
                       (joseHeader_of this) = Some e)))
   \<and> (read_prop (joseHeader_of this) ''zip'' \<noteq> JUndefined
      \<and> truthy (read_opt (f_protectedHeader this) ''zip'')
      \<and> read_prop (joseHeader_of this) ''zip'' \<noteq> JStr ''DEF''
    \<longrightarrow> (\<exists>e. FlattenedEncrypt_encrypt P k opts this s = (Inl e, this, s)
             \<and> (isDisjoint [f_protectedHeader this, f_unprotectedHeader this,
                            f_sharedUnprotectedHeader this]
                  \<and> validateCrit P JWEInvalid (crit opts) (f_protectedHeader this)
                       (joseHeader_of this) = None
                \<longrightarrow> e = JOSENotSupported)))
   \<and> (''zip'' \<notin> slot_names (f_protectedHeader this)
      \<and> ((\<exists>uh. f_unprotectedHeader this = Some uh \<and> distinct (names uh)
                \<and> read_prop uh ''zip'' \<noteq> JUndefined)
         \<or> (\<exists>sh. f_sharedUnprotectedHeader this = Some sh \<and> distinct (names sh)
                \<and> read_prop sh ''zip'' \<noteq> JUndefined))
    \<longrightarrow> (\<exists>e. FlattenedEncrypt_encrypt P k opts this s = (Inl e, this, s)))"
  using zip_unprotected_fails [where this = this and P = P and opts = opts and k = k and s = s]
    zip_unsupported_fails [where this = this and P = P and opts = opts and k = k and s = s]
    zip_only_unprotected_fails [where this = this and P = P and opts = opts and k = k and s = s]
  by blast

theorem zip_placement_flattened_witness:
  "read_prop (joseHeader_of zip_unprotected_builder) ''zip'' \<noteq> JUndefined
   \<and> \<not> truthy (read_opt (f_protectedHeader zip_unprotected_builder) ''zip'')
   \<and> ''zip'' \<notin> slot_names (f_protectedHeader zip_unprotected_builder)
   \<and> f_unprotectedHeader zip_unprotected_builder = Some [(''zip'', JStr ''DEF'')]
   \<and> FlattenedEncrypt_encrypt example_provider (Secret [9]) no_options
        zip_unprotected_builder (0, [])
       = (Inl JWEInvalid, zip_unprotected_builder, (0, []))
   \<and> read_prop (joseHeader_of zip_gz_builder) ''zip'' = JStr ''GZ''
   \<and> truthy (read_opt (f_protectedHeader zip_gz_builder) ''zip'')
   \<and> FlattenedEncrypt_encrypt example_provider (Secret [9]) no_options zip_gz_builder (0, [])
       = (Inl JOSENotSupported, zip_gz_builder, (0, []))"
proof -
  have u: "read_prop (joseHeader_of zip_unprotected_builder) ''zip'' \<noteq> JUndefined"
    "\<not> truthy (read_opt (f_protectedHeader zip_unprotected_builder) ''zip'')"
    "''zip'' \<notin> slot_names (f_protectedHeader zip_unprotected_builder)"
    "f_unprotectedHeader zip_unprotected_builder = Some [(''zip'', JStr ''DEF'')]"
    by (simp_all add: zip_unprotected_builder_def eval_defs)
  have g: "read_prop (joseHeader_of zip_gz_builder) ''zip'' = JStr ''GZ''"
    "truthy (read_opt (f_protectedHeader zip_gz_builder) ''zip'')"
    by (simp_all add: zip_gz_builder_def eval_defs)
  have cu: "validateCrit example_provider JWEInvalid (crit no_options)
              (f_protectedHeader zip_unprotected_builder)
              (joseHeader_of zip_unprotected_builder) = None"
    by (simp add: zip_unprotected_builder_def eval_defs)
  have cg: "validateCrit example_provider JWEInvalid (crit no_options)
              (f_protectedHeader zip_gz_builder) (joseHeader_of zip_gz_builder) = None"
    "isDisjoint [f_protectedHeader zip_gz_builder, f_unprotectedHeader zip_gz_builder,
                 f_sharedUnprotectedHeader zip_gz_builder]"
    by (simp_all add: zip_gz_builder_def eval_defs)
  have "FlattenedEncrypt_encrypt example_provider (Secret [9]) no_options
          zip_unprotected_builder (0, [])
        = (Inl JWEInvalid, zip_unprotected_builder, (0, []))"
    using zip_placement_flattened
      [where this = zip_unprotected_builder and P = example_provider and k = "Secret [9]"
         and opts = no_options and s = "(0, [])"]
      u cu
    by auto
  moreover have "FlattenedEncrypt_encrypt example_provider (Secret [9]) no_options
          zip_gz_builder (0, [])
        = (Inl JOSENotSupported, zip_gz_builder, (0, []))"
    using zip_placement_flattened
      [where this = zip_gz_builder and P = example_provider and k = "Secret [9]"
         and opts = no_options and s = "(0, [])"]
      g cg
    by auto
  ultimately show ?thesis using u g by simp
qed

text \<open>C7 as stated fails for a protected \<^verbatim>\<open>zip\<close> that is the empty string: the value is
  not \<^verbatim>\<open>"DEF"\<close> and is carried in the protected header, yet the error is JWEInvalid,
  not JOSENotSupported.\<close>

theorem zip_empty_string_counterexample:
  "read_opt (f_protectedHeader zip_empty_builder) ''zip'' = JStr []
   \<and> FlattenedEncrypt_encrypt example_provider (Secret [9]) no_options zip_empty_builder (0, [])
       = (Inl JWEInvalid, zip_empty_builder, (0, []))"
proof -
  have "encrypt_checks example_provider no_options zip_empty_builder = Inl JWEInvalid"
    by (simp add: encrypt_checks_def zip_empty_builder_def eval_defs)
  then show ?thesis
    by (simp add: encrypt_checks_fail) (simp add: zip_empty_builder_def eval_defs)
qed

section \<open>FlattenedEncrypt.encrypt: a successful call\<close>

lemma base64url_empty_iff: "base64url a = [] \<longleftrightarrow> a = []"
  by (cases a rule: base64url.cases) (simp_all add: Let_def)

lemma invoke_trace: "invoke ev f s = (r, s') \<Longrightarrow> snd s' = snd s @ [ev]"
  by (auto simp: invoke_def split: prod.splits)

lemma encrypt_content_success:
  assumes "encrypt_content P opts enc z km this s = (Inr jwe, this', s')"
  shows "\<exists>iv pt ct tag evs.
           this' = this\<lparr>f_iv := Some iv\<rparr>
           \<and> snd s' = snd s @ evs @ [EvEncrypt enc pt (km_cek km) iv (additionalData P this)]
           \<and> (\<forall>e\<in>set evs. (\<exists>x. e = EvGenerateIv x) \<or> (\<exists>x. e = EvDeflate x))
           \<and> jwe = assemble P this iv (km_encryptedKey km) ct tag"
proof -
  obtain r1 s1 where
    g: "(case f_iv this of Some iv \<Rightarrow> (Inr iv, s) | None \<Rightarrow> call_generateIv P enc s) = (r1, s1)"
    by (rule prod.exhaust)
  from assms g obtain iv where r1: "r1 = Inr iv"
    by (cases r1) (simp_all add: encrypt_content_def)
  have t1: "\<exists>evs. snd s1 = snd s @ evs \<and> (\<forall>e\<in>set evs. \<exists>x. e = EvGenerateIv x)"
  proof (cases "f_iv this")
    case None
    with g have "snd s1 = snd s @ [EvGenerateIv enc]"
      by (simp add: call_generateIv_def invoke_trace)
    then show ?thesis by simp
  next
    case (Some a)
    with g show ?thesis by simp
  qed
  obtain r2 s2 where
    d: "(if z then call_deflate P opts (f_plaintext this) s1
         else (Inr (f_plaintext this), s1)) = (r2, s2)"
    by (rule prod.exhaust)
  from assms g r1 d obtain pt where r2: "r2 = Inr pt"
    by (cases r2) (simp_all add: encrypt_content_def)
  have t2: "\<exists>evs. snd s2 = snd s1 @ evs \<and> (\<forall>e\<in>set evs. \<exists>x. e = EvDeflate x)"
  proof (cases z)
    case True
    with d have "snd s2 = snd s1 @ [EvDeflate (f_plaintext this)]"
      by (simp add: call_deflate_def invoke_trace)
    then show ?thesis by simp
  next
    case False
    with d show ?thesis by simp
  qed
  obtain r3 s3 where
    e: "call_encrypt P enc pt (km_cek km) iv (additionalData P this) s2 = (r3, s3)"
    by (rule prod.exhaust)
  from assms g r1 d r2 e obtain ct tag where r3: "r3 = Inr (ct, tag)"
    by (cases r3) (auto simp: encrypt_content_def)
  from assms g r1 d r2 e r3
  have res: "jwe = assemble P this iv (km_encryptedKey km) ct tag"
    "this' = this\<lparr>f_iv := Some iv\<rparr>" "s' = s3"
    by (simp_all add: encrypt_content_def)
  have t3: "snd s3 = snd s2 @ [EvEncrypt enc pt (km_cek km) iv (additionalData P this)]"
    using e by (simp add: call_encrypt_def invoke_trace)
  from t1 obtain evs1 where
    e1: "snd s1 = snd s @ evs1" "\<forall>e\<in>set evs1. \<exists>x. e = EvGenerateIv x" by blast
  from t2 obtain evs2 where
    e2: "snd s2 = snd s1 @ evs2" "\<forall>e\<in>set evs2. \<exists>x. e = EvDeflate x" by blast
  have "snd s' = snd s @ (evs1 @ evs2)
          @ [EvEncrypt enc pt (km_cek km) iv (additionalData P this)]"
    using e1 e2 t3 res by simp
  moreover have "\<forall>e\<in>set (evs1 @ evs2). (\<exists>x. e = EvGenerateIv x) \<or> (\<exists>x. e = EvDeflate x)"
    using e1 e2 by auto
  ultimately show ?thesis
    using res by blast
qed

lemma protectedHeader_bytes_iv [simp]:
  "protectedHeader_bytes P (this\<lparr>f_iv := v\<rparr>) = protectedHeader_bytes P this"
  by (simp add: protectedHeader_bytes_def)

lemma aadMember_iv [simp]: "aadMember (this\<lparr>f_iv := v\<rparr>) = aadMember this"
  by (simp add: aadMember_def)

lemma additionalData_iv [simp]:
  "additionalData P (this\<lparr>f_iv := v\<rparr>) = additionalData P this"
  by (simp add: additionalData_def cong: option.case_cong)

lemma assemble_iv [simp]:
  "assemble P (this\<lparr>f_iv := v\<rparr>) iv ek ct tag = assemble P this iv ek ct tag"
  by (simp add: assemble_def cong: option.case_cong)

lemma flattened_encrypt_after_checks:
  "encrypt_checks P opts this = Inr (alg, enc) \<Longrightarrow>
   FlattenedEncrypt_encrypt P k opts this s =
     (case call_encryptKeyManagement P alg enc k (f_cek this)
             (f_keyManagementParameters this) s of
        (Inl e, s1) \<Rightarrow> (Inl e, this, s1)
      | (Inr km, s1) \<Rightarrow>
          encrypt_content P opts enc
            (read_prop (joseHeader_of this) ''zip'' = JStr ''DEF'') km
            (merge_parameters (km_parameters km) this) s1)"
  by (simp add: FlattenedEncrypt_encrypt_def)

lemma flattened_success:
  assumes "FlattenedEncrypt_encrypt P k opts this s = (Inr jwe, this', s')"
  shows "\<exists>alg enc km iv pt ct tag evs.
           encrypt_checks P opts this = Inr (alg, enc)
           \<and> fst (encryptKeyManagement P alg enc k (f_cek this)
                    (f_keyManagementParameters this) (fst s)) = Inr km
           \<and> this' = (merge_parameters (km_parameters km) this)\<lparr>f_iv := Some iv\<rparr>
           \<and> snd s' = snd s
                @ EvKeyManagement alg enc k (f_cek this) (f_keyManagementParameters this)
                # evs @ [EvEncrypt enc pt (km_cek km) iv (additionalData P this')]
           \<and> (\<forall>e\<in>set evs. (\<exists>x. e = EvGenerateIv x) \<or> (\<exists>x. e = EvDeflate x))
           \<and> jwe = assemble P this' iv (km_encryptedKey km) ct tag"
proof -
  obtain alg enc where c: "encrypt_checks P opts this = Inr (alg, enc)"
  proof (cases "encrypt_checks P opts this")
    case (Inl e)
    then have "FlattenedEncrypt_encrypt P k opts this s = (Inl e, this, s)"
      by (simp add: FlattenedEncrypt_encrypt_def)
    with assms show ?thesis by simp
  next
    case (Inr p)
    with that show ?thesis by (cases p) simp
  qed
  obtain r s1 where km: "call_encryptKeyManagement P alg enc k (f_cek this)
                           (f_keyManagementParameters this) s = (r, s1)"
    by (rule prod.exhaust)
  have r: "r = fst (encryptKeyManagement P alg enc k (f_cek this)
                     (f_keyManagementParameters this) (fst s))"
    using km by (auto simp: call_encryptKeyManagement_def invoke_def split: prod.splits)
  have t0: "snd s1 = snd s @ [EvKeyManagement alg enc k (f_cek this)
                                (f_keyManagementParameters this)]"
    using km by (simp add: call_encryptKeyManagement_def invoke_trace)
  from assms obtain m where m: "r = Inr m"
    unfolding flattened_encrypt_after_checks [OF c] km by (cases r) simp_all
  from assms have ec: "encrypt_content P opts enc
                         (read_prop (joseHeader_of this) ''zip'' = JStr ''DEF'')
                         m (merge_parameters (km_parameters m) this) s1 = (Inr jwe, this', s')"
    unfolding flattened_encrypt_after_checks [OF c] km m by simp
  from encrypt_content_success [OF ec]
  obtain iv pt ct tag evs where
    t: "this' = (merge_parameters (km_parameters m) this)\<lparr>f_iv := Some iv\<rparr>"
    and tr: "snd s' = snd s1 @ evs
               @ [EvEncrypt enc pt (km_cek m) iv
                    (additionalData P (merge_parameters (km_parameters m) this))]"
    and ev: "\<forall>e\<in>set evs. (\<exists>x. e = EvGenerateIv x) \<or> (\<exists>x. e = EvDeflate x)"
    and j: "jwe = assemble P (merge_parameters (km_parameters m) this) iv
                    (km_encryptedKey m) ct tag"
    by blast
  have ad: "additionalData P this' = additionalData P (merge_parameters (km_parameters m) this)"
    by (simp add: t)
  have as: "assemble P this' iv (km_encryptedKey m) ct tag
              = assemble P (merge_parameters (km_parameters m) this) iv (km_encryptedKey m) ct tag"
    by (simp add: t)
  have tr': "snd s' = snd s
                @ EvKeyManagement alg enc k (f_cek this) (f_keyManagementParameters this)
                # evs @ [EvEncrypt enc pt (km_cek m) iv (additionalData P this')]"
    using tr t0 ad by simp
  have j': "jwe = assemble P this' iv (km_encryptedKey m) ct tag"
    using j as by simp
  have km': "fst (encryptKeyManagement P alg enc k (f_cek this)
                    (f_keyManagementParameters this) (fst s)) = Inr m"
    using r m by simp
  show ?thesis
    using c km' t tr' ev j' by blast
qed

lemmas run_defs =
  FlattenedEncrypt_encrypt_def encrypt_checks_def encrypt_content_def
  call_generateIv_def call_generateCek_def call_encryptKeyManagement_def call_encrypt_def
  call_deflate_def call_normalizeKey_def invoke_def merge_parameters_def assemble_def
  additionalData_def aadMember_def protectedHeader_bytes_def nonempty_def base64url_str_def
  concat3_def

lemma encoder_encode_Nil: "encoder_encode [] = []"
  by (simp add: encoder_encode_def)

lemma merge_parameters_aad [simp]: "f_aad (merge_parameters ps this) = f_aad this"
  by (simp add: merge_parameters_def setProtectedHeader_def split: option.splits)

text \<open>
  The additional authenticated data of a successful call. The last primitive called is
  the content encryption, and the data it is given is the ASCII of the base64url of the
  serialized protected header, as it stands after key management (nothing when there is
  no protected header), followed, when the caller set additional data, by a dot and the
  ASCII of its base64url. The \<^verbatim>\<open>aad\<close> member of the result is the base64url of the
  caller's data when that is not empty, and is absent otherwise.
\<close>

theorem flattened_additional_data:
  assumes "FlattenedEncrypt_encrypt P k opts this s = (Inr jwe, this', s')"
  shows "\<exists>enc pt ck iv.
           last (snd s') = EvEncrypt enc pt ck iv
             ((case f_protectedHeader this' of
                 Some h \<Rightarrow> encoder_encode (base64url (encoder_encode (stringify P h)))
               | None \<Rightarrow> [])
              @ (case f_aad this of
                   Some a \<Rightarrow> encoder_encode ''.'' @ encoder_encode (base64url a)
                 | None \<Rightarrow> []))
           \<and> jwe_aad jwe
               = (case f_aad this of
                    Some a \<Rightarrow> if a = [] then None else Some (base64url a)
                  | None \<Rightarrow> None)
           \<and> jwe_protected jwe
               = map_option (\<lambda>h. base64url (encoder_encode (stringify P h)))
                   (f_protectedHeader this')"
proof -
  from flattened_success [OF assms]
  obtain alg enc km iv pt ct tag evs where
    c: "encrypt_checks P opts this = Inr (alg, enc)"
    and km: "fst (encryptKeyManagement P alg enc k (f_cek this)
                    (f_keyManagementParameters this) (fst s)) = Inr km"
    and t: "this' = (merge_parameters (km_parameters km) this)\<lparr>f_iv := Some iv\<rparr>"
    and tr: "snd s' = snd s
                @ EvKeyManagement alg enc k (f_cek this) (f_keyManagementParameters this)
                # evs @ [EvEncrypt enc pt (km_cek km) iv (additionalData P this')]"
    and ev: "\<forall>e\<in>set evs. (\<exists>x. e = EvGenerateIv x) \<or> (\<exists>x. e = EvDeflate x)"
    and j: "jwe = assemble P this' iv (km_encryptedKey km) ct tag"
    by (elim exE conjE) (rule that)
  have a: "f_aad this' = f_aad this"
    by (simp add: t)
  have ad: "additionalData P this'
      = (case f_protectedHeader this' of
           Some h \<Rightarrow> encoder_encode (base64url (encoder_encode (stringify P h)))
         | None \<Rightarrow> [])
        @ (case f_aad this of
             Some a \<Rightarrow> encoder_encode ''.'' @ encoder_encode (base64url a)
           | None \<Rightarrow> [])"
    by (simp add: additionalData_def aadMember_def protectedHeader_bytes_def base64url_str_def
        concat3_def a encoder_encode_Nil split: option.splits)
  have l: "last (snd s') = EvEncrypt enc pt (km_cek km) iv (additionalData P this')"
    by (simp add: tr)
  have ja: "jwe_aad jwe
               = (case f_aad this of
                    Some a \<Rightarrow> if a = [] then None else Some (base64url a)
                  | None \<Rightarrow> None)"
    by (simp add: j assemble_def nonempty_def aadMember_def a base64url_empty_iff
        split: option.splits)
  have jp: "jwe_protected jwe
               = map_option (\<lambda>h. base64url (encoder_encode (stringify P h)))
                   (f_protectedHeader this')"
    by (simp add: j assemble_def protectedHeader_bytes_def base64url_str_def
        decoder_decode_encoder_encode split: option.splits)
  show ?thesis
    unfolding l ad ja jp by blast
qed

lemma run_aad_builder:
  "\<exists>ct iv tag w.
     FlattenedEncrypt_encrypt example_provider (Secret [9]) no_options aad_builder (0, [])
       = (Inr \<lparr>jwe_ciphertext = ct, jwe_iv = iv, jwe_tag = tag, jwe_encrypted_key = None,
               jwe_aad = Some (base64url [102, 111, 111]),
               jwe_protected = Some (base64url (encoder_encode ''{algenc}'')),
               jwe_unprotected = None, jwe_header = None\<rparr>,
          aad_builder\<lparr>f_iv := Some (replicate 12 0)\<rparr>,
          w,
          [EvKeyManagement ''dir'' ''A128GCM'' (Secret [9]) None None,
           EvGenerateIv ''A128GCM'',
           EvEncrypt ''A128GCM'' [104, 105] (Secret [9]) (replicate 12 0)
             (encoder_encode (base64url (encoder_encode ''{algenc}''))
              @ encoder_encode ''.'' @ encoder_encode (base64url [102, 111, 111]))])"
  by (simp add: run_defs aad_builder_def eval_defs decoder_decode_encoder_encode
      encoder_encode_Nil base64url_empty_iff del: base64url.simps)

theorem flattened_additional_data_witness:
  "\<exists>jwe this' s'.
     FlattenedEncrypt_encrypt example_provider (Secret [9]) no_options aad_builder (0, [])
       = (Inr jwe, this', s')
     \<and> jwe_aad jwe = Some ''Zm9v''
     \<and> (\<exists>enc pt ck iv. last (snd s') = EvEncrypt enc pt ck iv
           (encoder_encode (base64url (encoder_encode ''{algenc}''))
            @ encoder_encode ''.'' @ encoder_encode ''Zm9v''))"
proof -
  from run_aad_builder obtain jwe this' s' where
    r: "FlattenedEncrypt_encrypt example_provider (Secret [9]) no_options aad_builder (0, [])
          = (Inr jwe, this', s')"
    and p: "f_protectedHeader this' = Some dir_header"
    by (auto simp: aad_builder_def eval_defs)
  have a: "f_aad aad_builder = Some [102, 111, 111]"
    by (simp add: aad_builder_def eval_defs)
  have s: "stringify example_provider dir_header = ''{algenc}''"
    by (simp add: example_provider_def dir_header_def)
  from flattened_additional_data [OF r]
  have "jwe_aad jwe = Some ''Zm9v''
     \<and> (\<exists>enc pt ck iv. last (snd s') = EvEncrypt enc pt ck iv
           (encoder_encode (base64url (encoder_encode ''{algenc}''))
            @ encoder_encode ''.'' @ encoder_encode ''Zm9v''))"
    by (simp add: p a s b64char_def)
  with r show ?thesis by blast
qed

text \<open>
  C6. The claim: when the caller set additional data, the \<^verbatim>\<open>aad\<close> member of the result
  is its base64url. For additional data of length 0 the content encryption is given the
  encoded protected header followed by a dot, yet the result has no \<^verbatim>\<open>aad\<close> member:
  the member is written only when its text is truthy, and the empty string is not.
\<close>

theorem empty_aad_member_dropped:
  "\<exists>ct iv tag w.
     FlattenedEncrypt_encrypt example_provider (Secret [9]) no_options empty_aad_builder (0, [])
       = (Inr \<lparr>jwe_ciphertext = ct, jwe_iv = iv, jwe_tag = tag, jwe_encrypted_key = None,
               jwe_aad = None,
               jwe_protected = Some (base64url (encoder_encode ''{algenc}'')),
               jwe_unprotected = None, jwe_header = None\<rparr>,
          empty_aad_builder\<lparr>f_iv := Some (replicate 12 0)\<rparr>,
          w,
          [EvKeyManagement ''dir'' ''A128GCM'' (Secret [9]) None None,
           EvGenerateIv ''A128GCM'',
           EvEncrypt ''A128GCM'' [104, 105] (Secret [9]) (replicate 12 0)
             (encoder_encode (base64url (encoder_encode ''{algenc}''))
              @ encoder_encode ''.'')])"
  by (simp add: run_defs empty_aad_builder_def eval_defs decoder_decode_encoder_encode
      encoder_encode_Nil)

section \<open>GeneralEncrypt.encrypt: what is rejected before a key is generated\<close>

subsection \<open>One iteration of the first loop\<close>

lemma check_recipient_Inr:
  assumes "check_recipient P this enc r = Inr enc'"
  shows "isDisjoint [g_protectedHeader this, g_unprotectedHeader this, r_unprotectedHeader r]"
    and "string_param (read_prop (recipient_header this r) ''enc'') = Some enc'"
    and "enc = [] \<or> enc = enc'"
    and "crit_or_zip_error P this r = None"
    and "read_prop (recipient_header this r) ''alg'' \<noteq> JStr ''dir''"
    and "read_prop (recipient_header this r) ''alg'' \<noteq> JStr ''ECDH-ES''"
  using assms
  by (auto simp: check_recipient_def string_param_Some split: if_splits option.splits)

lemma check_recipient_Inl:
  assumes "check_recipient P this enc r = Inl e"
  shows "e = JWEInvalid \<or> crit_or_zip_error P this r = Some e"
  using assms
  by (auto simp: check_recipient_def split: if_splits option.splits)

lemma check_recipient_overlap:
  "\<not> isDisjoint [g_protectedHeader this, g_unprotectedHeader this, r_unprotectedHeader r]
     \<Longrightarrow> check_recipient P this enc r = Inl JWEInvalid"
  by (simp add: check_recipient_def)

lemma check_recipient_direct:
  assumes "read_prop (recipient_header this r) ''alg'' = JStr ''dir''
           \<or> read_prop (recipient_header this r) ''alg'' = JStr ''ECDH-ES''"
  shows "check_recipient P this enc r = Inl JWEInvalid"
  using assms by (auto simp: check_recipient_def string_param_def)

lemma check_recipient_no_enc:
  assumes "string_param (read_prop (recipient_header this r) ''enc'') = None"
  shows "check_recipient P this enc r = Inl JWEInvalid"
  using assms by (simp add: check_recipient_def split: option.splits)

lemma check_recipient_other_enc:
  assumes "enc \<noteq> []"
    and "string_param (read_prop (recipient_header this r) ''enc'') \<noteq> Some enc"
  shows "check_recipient P this enc r = Inl JWEInvalid"
  using assms by (auto simp: check_recipient_def split: option.splits)

subsection \<open>The first loop\<close>

lemma check_recipients_append:
  "check_recipients P this enc (xs @ ys) =
     (case check_recipients P this enc xs of
        Inl e \<Rightarrow> Inl e
      | Inr enc' \<Rightarrow> check_recipients P this enc' ys)"
  by (induction xs arbitrary: enc) (simp_all split: sum.splits)

lemma check_recipients_Inl:
  assumes "check_recipients P this enc rs = Inl e"
  shows "e = JWEInvalid \<or> (\<exists>p\<in>set rs. crit_or_zip_error P this p = Some e)"
  using assms
proof (induction rs arbitrary: enc)
  case Nil
  then show ?case by simp
next
  case (Cons x xs)
  show ?case
  proof (cases "check_recipient P this enc x")
    case (Inl e')
    with Cons.prems have "e' = e" by simp
    with check_recipient_Inl [OF Inl] show ?thesis by auto
  next
    case (Inr h)
    with Cons.prems have "check_recipients P this h xs = Inl e" by simp
    from Cons.IH [OF this] show ?thesis by auto
  qed
qed

lemma check_recipients_Inr:
  assumes "check_recipients P this enc rs = Inr enc'"
  shows "(enc \<noteq> [] \<longrightarrow> enc' = enc)
         \<and> (\<forall>r\<in>set rs. string_param (read_prop (recipient_header this r) ''enc'') = Some enc')"
  using assms
proof (induction rs arbitrary: enc)
  case Nil
  then show ?case by simp
next
  case (Cons x xs)
  from Cons.prems obtain h where h: "check_recipient P this enc x = Inr h"
    and rest: "check_recipients P this h xs = Inr enc'"
    by (cases "check_recipient P this enc x") simp_all
  from check_recipient_Inr(2,3) [OF h]
  have hx: "string_param (read_prop (recipient_header this x) ''enc'') = Some h"
    and eh: "enc = [] \<or> enc = h" by simp_all
  from hx have "h \<noteq> []" by (simp add: string_param_Some)
  with Cons.IH [OF rest] have "enc' = h"
    and "\<forall>r\<in>set xs. string_param (read_prop (recipient_header this r) ''enc'') = Some enc'"
    by simp_all
  with hx eh show ?case by auto
qed

subsection \<open>GeneralEncrypt.encrypt with more than one recipient\<close>

lemma general_encrypt_multi:
  assumes "g_recipients this = r1 # r2 # rest"
  shows "GeneralEncrypt_encrypt P this s =
     (case check_recipients P this [] (g_recipients this) of
        Inl e \<Rightarrow> (Inl e, s)
      | Inr enc \<Rightarrow>
          (case call_generateCek P enc s of
             (Inl e, s1) \<Rightarrow> (Inl e, s1)
           | (Inr cek, s1) \<Rightarrow>
               wrap_recipients P this enc cek 0 (g_recipients this) empty_jwe s1))"
  by (simp add: GeneralEncrypt_encrypt_def assms)

lemma multi_split:
  assumes "xs = pre @ r # post" and "pre \<noteq> [] \<or> post \<noteq> []"
  shows "\<exists>r1 r2 rest. xs = r1 # r2 # rest"
proof (cases pre)
  case Nil
  with assms obtain p ps where "post = p # ps" by (cases post) auto
  with Nil assms(1) show ?thesis by simp
next
  case (Cons a as)
  show ?thesis
  proof (cases as)
    case Nil
    with Cons assms(1) show ?thesis by simp
  next
    case (Cons b bs)
    with \<open>pre = a # as\<close> assms(1) show ?thesis by simp
  qed
qed

lemma general_encrypt_check_fails:
  assumes "g_recipients this = pre @ r # post" and "pre \<noteq> [] \<or> post \<noteq> []"
    and "check_recipients P this [] (g_recipients this) = Inl e"
  shows "GeneralEncrypt_encrypt P this s = (Inl e, s)"
proof -
  from multi_split [OF assms(1,2)] obtain r1 r2 rest where
    "g_recipients this = r1 # r2 # rest" by blast
  then have "GeneralEncrypt_encrypt P this s =
     (case check_recipients P this [] (g_recipients this) of
        Inl e \<Rightarrow> (Inl e, s)
      | Inr enc \<Rightarrow>
          (case call_generateCek P enc s of
             (Inl e, s1) \<Rightarrow> (Inl e, s1)
           | (Inr cek, s1) \<Rightarrow>
               wrap_recipients P this enc cek 0 (g_recipients this) empty_jwe s1))"
    by (rule general_encrypt_multi)
  then show ?thesis by (simp add: assms(3))
qed

text \<open>The first rejected recipient decides.\<close>

lemma first_rejection_decides:
  assumes "\<And>enc'. check_recipients P this [] pre = Inr enc'
             \<Longrightarrow> check_recipient P this enc' r = Inl JWEInvalid"
  shows "check_recipients P this [] (pre @ r # post)
           = Inl (case check_recipients P this [] pre of Inl e \<Rightarrow> e | Inr enc' \<Rightarrow> JWEInvalid)"
proof (cases "check_recipients P this [] pre")
  case (Inl e)
  then show ?thesis by (simp add: check_recipients_append)
next
  case (Inr enc')
  from assms [OF Inr] Inr show ?thesis by (simp add: check_recipients_append)
qed

lemma earlier_rejection:
  assumes "pre = as @ p # bs" and "check_recipients P this [] as = Inr enc'"
    and "check_recipient P this enc' p = Inl e"
  shows "check_recipients P this [] pre = Inl e"
  using assms by (simp add: check_recipients_append)

lemma general_rejects:
  assumes rs: "g_recipients this = pre @ r # post" and multi: "pre \<noteq> [] \<or> post \<noteq> []"
    and rej: "\<And>enc'. check_recipients P this [] pre = Inr enc'
             \<Longrightarrow> check_recipient P this enc' r = Inl JWEInvalid"
  shows "GeneralEncrypt_encrypt P this s
           = (Inl (case check_recipients P this [] pre of Inl e \<Rightarrow> e | Inr enc' \<Rightarrow> JWEInvalid), s)
         \<and> (\<forall>as p bs enc' e.
               pre = as @ p # bs \<and> check_recipients P this [] as = Inr enc'
               \<and> check_recipient P this enc' p = Inl e
               \<longrightarrow> GeneralEncrypt_encrypt P this s = (Inl e, s))
         \<and> (\<forall>e. GeneralEncrypt_encrypt P this s = (Inl e, s) \<and> e \<noteq> JWEInvalid
               \<longrightarrow> (\<exists>p\<in>set pre. crit_or_zip_error P this p = Some e))"
proof -
  let ?e = "case check_recipients P this [] pre of Inl e \<Rightarrow> e | Inr enc' \<Rightarrow> JWEInvalid"
  have "check_recipients P this [] (g_recipients this) = Inl ?e"
    unfolding rs using rej by (rule first_rejection_decides)
  from general_encrypt_check_fails [OF rs multi this]
  have a: "GeneralEncrypt_encrypt P this s = (Inl ?e, s)" .
  have b: "GeneralEncrypt_encrypt P this s = (Inl e, s)"
    if "pre = as @ p # bs" and "check_recipients P this [] as = Inr enc'"
      and "check_recipient P this enc' p = Inl e" for as p bs enc' e
  proof -
    from earlier_rejection [OF that] have "check_recipients P this [] pre = Inl e" .
    with a show ?thesis by simp
  qed
  have c: "\<exists>p\<in>set pre. crit_or_zip_error P this p = Some e"
    if "GeneralEncrypt_encrypt P this s = (Inl e, s)" and "e \<noteq> JWEInvalid" for e
  proof (cases "check_recipients P this [] pre")
    case (Inl e')
    with a that(1) have "e' = e" by simp
    with check_recipients_Inl [OF Inl] that(2) show ?thesis by auto
  next
    case (Inr enc')
    with a that show ?thesis by simp
  qed
  from a b c show ?thesis by blast
qed

subsection \<open>GeneralEncrypt.encrypt with one recipient\<close>

lemma single_builder_eq:
  "single_builder this r =
     (None, (new_FlattenedEncrypt (g_plaintext this))
              \<lparr>f_protectedHeader := g_protectedHeader this,
               f_sharedUnprotectedHeader := g_unprotectedHeader this,
               f_unprotectedHeader := r_unprotectedHeader r,
               f_aad := g_aad this\<rparr>)"
  by (simp add: single_builder_def and_then_def setAdditionalAuthenticatedData_def
      setProtectedHeader_def setSharedUnprotectedHeader_def setUnprotectedHeader_def
      new_FlattenedEncrypt_def)

lemma general_single_overlap:
  assumes "g_recipients this = [r]"
    and "slot_names (g_protectedHeader this) \<inter> slot_names (g_unprotectedHeader this) \<noteq> {}
         \<or> slot_names (g_protectedHeader this) \<inter> slot_names (r_unprotectedHeader r) \<noteq> {}
         \<or> slot_names (g_unprotectedHeader this) \<inter> slot_names (r_unprotectedHeader r) \<noteq> {}"
  shows "GeneralEncrypt_encrypt P this s = (Inl JWEInvalid, s)"
proof -
  let ?fe = "(new_FlattenedEncrypt (g_plaintext this))
              \<lparr>f_protectedHeader := g_protectedHeader this,
               f_sharedUnprotectedHeader := g_unprotectedHeader this,
               f_unprotectedHeader := r_unprotectedHeader r,
               f_aad := g_aad this\<rparr>"
  have "FlattenedEncrypt_encrypt P (r_key r) (recipient_options r) ?fe s
          = (Inl JWEInvalid, ?fe, s)"
    by (rule flattened_overlap_rejected) (use assms(2) in auto)
  then show ?thesis
    by (simp add: GeneralEncrypt_encrypt_def assms(1) single_builder_eq)
qed

lemma general_overlap_rejected:
  assumes "g_recipients this = pre @ r # post"
    and "slot_names (g_protectedHeader this) \<inter> slot_names (g_unprotectedHeader this) \<noteq> {}
         \<or> slot_names (g_protectedHeader this) \<inter> slot_names (r_unprotectedHeader r) \<noteq> {}
         \<or> slot_names (g_unprotectedHeader this) \<inter> slot_names (r_unprotectedHeader r) \<noteq> {}"
  shows "GeneralEncrypt_encrypt P this s
           = (Inl (case check_recipients P this [] pre of Inl e \<Rightarrow> e | Inr enc' \<Rightarrow> JWEInvalid), s)
         \<and> (\<forall>front p rear enc' e.
               pre = front @ p # rear \<and> check_recipients P this [] front = Inr enc'
               \<and> check_recipient P this enc' p = Inl e
               \<longrightarrow> GeneralEncrypt_encrypt P this s = (Inl e, s))
         \<and> (\<forall>e. GeneralEncrypt_encrypt P this s = (Inl e, s) \<and> e \<noteq> JWEInvalid
               \<longrightarrow> (\<exists>p\<in>set pre. crit_or_zip_error P this p = Some e))"
proof (cases "pre \<noteq> [] \<or> post \<noteq> []")
  case True
  have "\<not> isDisjoint [g_protectedHeader this, g_unprotectedHeader this, r_unprotectedHeader r]"
    using assms(2) unfolding isDisjoint3 by blast
  then have "\<And>enc0. check_recipient P this enc0 r = Inl JWEInvalid"
    by (rule check_recipient_overlap)
  from general_rejects [OF assms(1) True this] show ?thesis .
next
  case False
  with assms(1) have "g_recipients this = [r]" by simp
  from general_single_overlap [OF this assms(2), where P = P and s = s] False
  show ?thesis by simp
qed

lemmas first_loop_defs = check_recipient_def crit_or_zip_error_def general_with_def
  recipient_with_def

section \<open>The claims on rejected configurations\<close>

text \<open>
  C2, as the code has it. A parameter name that occurs in two of the three header slots
  makes encrypt throw before any primitive is called: the platform state and the record
  of primitive calls are as before the call. In FlattenedEncrypt the error is JWEInvalid.
  In GeneralEncrypt the recipients are checked in order and the first one rejected decides
  the error. It is what the first loop, run on the recipients listed before the one whose
  headers overlap, throws, and JWEInvalid when that loop throws nothing: so it is
  JWEInvalid when every earlier recipient passes its checks; it is the error of the first
  earlier recipient that is rejected, when there is one; and an error other than
  JWEInvalid is what crit validation or the \<^verbatim>\<open>zip\<close> check of an earlier recipient
  throws.
\<close>

theorem overlapping_header_names_rejected:
  "(slot_names (f_protectedHeader f) \<inter> slot_names (f_unprotectedHeader f) \<noteq> {}
      \<or> slot_names (f_protectedHeader f) \<inter> slot_names (f_sharedUnprotectedHeader f) \<noteq> {}
      \<or> slot_names (f_unprotectedHeader f) \<inter> slot_names (f_sharedUnprotectedHeader f) \<noteq> {}
    \<longrightarrow> FlattenedEncrypt_encrypt P k opts f s = (Inl JWEInvalid, f, s))
   \<and> (g_recipients g = pre @ r # post
      \<and> (slot_names (g_protectedHeader g) \<inter> slot_names (g_unprotectedHeader g) \<noteq> {}
         \<or> slot_names (g_protectedHeader g) \<inter> slot_names (r_unprotectedHeader r) \<noteq> {}
         \<or> slot_names (g_unprotectedHeader g) \<inter> slot_names (r_unprotectedHeader r) \<noteq> {})
    \<longrightarrow> GeneralEncrypt_encrypt P g s
          = (Inl (case check_recipients P g [] pre of Inl e \<Rightarrow> e | Inr enc' \<Rightarrow> JWEInvalid), s)
        \<and> (\<forall>front p rear enc' e.
              pre = front @ p # rear \<and> check_recipients P g [] front = Inr enc'
              \<and> check_recipient P g enc' p = Inl e
              \<longrightarrow> GeneralEncrypt_encrypt P g s = (Inl e, s))
        \<and> (\<forall>e. GeneralEncrypt_encrypt P g s = (Inl e, s) \<and> e \<noteq> JWEInvalid
              \<longrightarrow> (\<exists>p\<in>set pre. crit_or_zip_error P g p = Some e)))"
proof (rule conjI; rule impI)
  assume "slot_names (f_protectedHeader f) \<inter> slot_names (f_unprotectedHeader f) \<noteq> {}
      \<or> slot_names (f_protectedHeader f) \<inter> slot_names (f_sharedUnprotectedHeader f) \<noteq> {}
      \<or> slot_names (f_unprotectedHeader f) \<inter> slot_names (f_sharedUnprotectedHeader f) \<noteq> {}"
  then show "FlattenedEncrypt_encrypt P k opts f s = (Inl JWEInvalid, f, s)"
    by (rule flattened_overlap_rejected)
next
  assume a: "g_recipients g = pre @ r # post
      \<and> (slot_names (g_protectedHeader g) \<inter> slot_names (g_unprotectedHeader g) \<noteq> {}
         \<or> slot_names (g_protectedHeader g) \<inter> slot_names (r_unprotectedHeader r) \<noteq> {}
         \<or> slot_names (g_unprotectedHeader g) \<inter> slot_names (r_unprotectedHeader r) \<noteq> {})"
  from general_overlap_rejected [OF conjunct1 [OF a] conjunct2 [OF a], where P = P and s = s]
  show "GeneralEncrypt_encrypt P g s
          = (Inl (case check_recipients P g [] pre of Inl e \<Rightarrow> e | Inr enc' \<Rightarrow> JWEInvalid), s)
        \<and> (\<forall>front p rear enc' e.
              pre = front @ p # rear \<and> check_recipients P g [] front = Inr enc'
              \<and> check_recipient P g enc' p = Inl e
              \<longrightarrow> GeneralEncrypt_encrypt P g s = (Inl e, s))
        \<and> (\<forall>e. GeneralEncrypt_encrypt P g s = (Inl e, s) \<and> e \<noteq> JWEInvalid
              \<longrightarrow> (\<exists>p\<in>set pre. crit_or_zip_error P g p = Some e))" .
qed

theorem overlapping_header_names_rejected_witness:
  "slot_names (f_protectedHeader overlap_builder)
     \<inter> slot_names (f_sharedUnprotectedHeader overlap_builder) = {''enc''}
   \<and> FlattenedEncrypt_encrypt example_provider (Secret [9]) no_options overlap_builder (0, [])
       = (Inl JWEInvalid, overlap_builder, (0, []))
   \<and> g_recipients overlap_second
       = [recipient_with None] @ recipient_with (Some [(''alg'', JStr ''A128KW'')]) # []
   \<and> slot_names (g_protectedHeader overlap_second)
       \<inter> slot_names (r_unprotectedHeader (recipient_with (Some [(''alg'', JStr ''A128KW'')])))
       = {''alg''}
   \<and> check_recipients example_provider overlap_second [] [recipient_with None]
       = Inr ''A128GCM''
   \<and> GeneralEncrypt_encrypt example_provider overlap_second (0, []) = (Inl JWEInvalid, (0, []))
   \<and> g_recipients overlap_second_first_without_alg
       = [recipient_with (Some [(''zip'', JStr ''DEF'')])]
         @ recipient_with (Some [(''alg'', JStr ''A128KW''), (''enc'', JStr ''A128GCM'')]) # []
   \<and> slot_names (g_protectedHeader overlap_second_first_without_alg)
       \<inter> slot_names (r_unprotectedHeader
            (recipient_with (Some [(''alg'', JStr ''A128KW''), (''enc'', JStr ''A128GCM'')])))
       = {''enc''}
   \<and> check_recipient example_provider overlap_second_first_without_alg []
        (recipient_with (Some [(''zip'', JStr ''DEF'')])) = Inl JWEInvalid
   \<and> GeneralEncrypt_encrypt example_provider overlap_second_first_without_alg (0, [])
       = (Inl JWEInvalid, (0, []))
   \<and> g_recipients overlap_second_with_zip
       = [recipient_with None] @ recipient_with (Some [(''alg'', JStr ''A128KW'')]) # []
   \<and> slot_names (g_protectedHeader overlap_second_with_zip)
       \<inter> slot_names (r_unprotectedHeader (recipient_with (Some [(''alg'', JStr ''A128KW'')])))
       = {''alg''}
   \<and> check_recipient example_provider overlap_second_with_zip [] (recipient_with None)
       = Inl JOSENotSupported
   \<and> GeneralEncrypt_encrypt example_provider overlap_second_with_zip (0, [])
       = (Inl JOSENotSupported, (0, []))"
proof -
  let ?none = "recipient_with None"
  let ?kw = "recipient_with (Some [(''alg'', JStr ''A128KW'')])"
  let ?zip = "recipient_with (Some [(''zip'', JStr ''DEF'')])"
  let ?kwenc = "recipient_with (Some [(''alg'', JStr ''A128KW''), (''enc'', JStr ''A128GCM'')])"
  have a0: "slot_names (f_protectedHeader overlap_builder)
     \<inter> slot_names (f_sharedUnprotectedHeader overlap_builder) = {''enc''}"
    by (simp add: overlap_builder_def eval_defs)
  have o0: "slot_names (f_protectedHeader overlap_builder)
        \<inter> slot_names (f_unprotectedHeader overlap_builder) \<noteq> {}
      \<or> slot_names (f_protectedHeader overlap_builder)
        \<inter> slot_names (f_sharedUnprotectedHeader overlap_builder) \<noteq> {}
      \<or> slot_names (f_unprotectedHeader overlap_builder)
        \<inter> slot_names (f_sharedUnprotectedHeader overlap_builder) \<noteq> {}"
    unfolding a0 by simp
  have r0: "FlattenedEncrypt_encrypt example_provider (Secret [9]) no_options overlap_builder
              (0, []) = (Inl JWEInvalid, overlap_builder, (0, []))"
    by (rule overlapping_header_names_rejected [THEN conjunct1, rule_format, OF o0])
  have a1: "g_recipients overlap_second = [?none] @ ?kw # []"
    by (simp add: overlap_second_def general_with_def recipient_with_def)
  have b1: "slot_names (g_protectedHeader overlap_second)
              \<inter> slot_names (r_unprotectedHeader ?kw) = {''alg''}"
    by (simp add: overlap_second_def general_with_def recipient_with_def eval_defs)
  have o1: "slot_names (g_protectedHeader overlap_second)
              \<inter> slot_names (g_unprotectedHeader overlap_second) \<noteq> {}
         \<or> slot_names (g_protectedHeader overlap_second)
              \<inter> slot_names (r_unprotectedHeader ?kw) \<noteq> {}
         \<or> slot_names (g_unprotectedHeader overlap_second)
              \<inter> slot_names (r_unprotectedHeader ?kw) \<noteq> {}"
    unfolding b1 by simp
  have c1: "check_recipients example_provider overlap_second [] [?none] = Inr ''A128GCM''"
    by (simp add: overlap_second_def first_loop_defs eval_defs)
  have r1: "GeneralEncrypt_encrypt example_provider overlap_second (0, [])
              = (Inl JWEInvalid, (0, []))"
    using overlapping_header_names_rejected
      [where P = example_provider and s = "(0, [])", THEN conjunct2, rule_format,
        OF conjI [OF a1 o1], THEN conjunct1]
    unfolding c1 by simp
  have a2: "g_recipients overlap_second_first_without_alg = [?zip] @ ?kwenc # []"
    by (simp add: overlap_second_first_without_alg_def general_with_def recipient_with_def)
  have b2: "slot_names (g_protectedHeader overlap_second_first_without_alg)
              \<inter> slot_names (r_unprotectedHeader ?kwenc) = {''enc''}"
    by (simp add: overlap_second_first_without_alg_def general_with_def recipient_with_def
        eval_defs)
  have o2: "slot_names (g_protectedHeader overlap_second_first_without_alg)
              \<inter> slot_names (g_unprotectedHeader overlap_second_first_without_alg) \<noteq> {}
         \<or> slot_names (g_protectedHeader overlap_second_first_without_alg)
              \<inter> slot_names (r_unprotectedHeader ?kwenc) \<noteq> {}
         \<or> slot_names (g_unprotectedHeader overlap_second_first_without_alg)
              \<inter> slot_names (r_unprotectedHeader ?kwenc) \<noteq> {}"
    unfolding b2 by simp
  have c2: "check_recipient example_provider overlap_second_first_without_alg [] ?zip
              = Inl JWEInvalid"
    by (simp add: overlap_second_first_without_alg_def first_loop_defs eval_defs)
  have r2: "GeneralEncrypt_encrypt example_provider overlap_second_first_without_alg (0, [])
              = (Inl JWEInvalid, (0, []))"
    by (rule overlapping_header_names_rejected
        [where P = example_provider and s = "(0, [])", THEN conjunct2, rule_format,
          OF conjI [OF a2 o2], THEN conjunct2, THEN conjunct1, rule_format,
          where front = "[]" and p = ?zip and rear = "[]" and enc' = "[]"])
      (simp add: c2)
  have a3: "g_recipients overlap_second_with_zip = [?none] @ ?kw # []"
    by (simp add: overlap_second_with_zip_def general_with_def recipient_with_def)
  have b3: "slot_names (g_protectedHeader overlap_second_with_zip)
              \<inter> slot_names (r_unprotectedHeader ?kw) = {''alg''}"
    by (simp add: overlap_second_with_zip_def general_with_def recipient_with_def eval_defs)
  have o3: "slot_names (g_protectedHeader overlap_second_with_zip)
              \<inter> slot_names (g_unprotectedHeader overlap_second_with_zip) \<noteq> {}
         \<or> slot_names (g_protectedHeader overlap_second_with_zip)
              \<inter> slot_names (r_unprotectedHeader ?kw) \<noteq> {}
         \<or> slot_names (g_unprotectedHeader overlap_second_with_zip)
              \<inter> slot_names (r_unprotectedHeader ?kw) \<noteq> {}"
    unfolding b3 by simp
  have c3: "check_recipient example_provider overlap_second_with_zip [] ?none
              = Inl JOSENotSupported"
    by (simp add: overlap_second_with_zip_def first_loop_defs eval_defs)
  have r3: "GeneralEncrypt_encrypt example_provider overlap_second_with_zip (0, [])
              = (Inl JOSENotSupported, (0, []))"
    by (rule overlapping_header_names_rejected
        [where P = example_provider and s = "(0, [])", THEN conjunct2, rule_format,
          OF conjI [OF a3 o3], THEN conjunct2, THEN conjunct1, rule_format,
          where front = "[]" and p = ?none and rear = "[]" and enc' = "[]"])
      (simp add: c3)
  from a0 r0 a1 b1 c1 r1 a2 b2 c2 r2 a3 b3 c3 r3 show ?thesis by (intro conjI)
qed

text \<open>C2 as stated fails in GeneralEncrypt: when the protected header carries \<^verbatim>\<open>zip\<close>,
  the first recipient is rejected with JOSENotSupported before the second recipient's
  overlapping \<^verbatim>\<open>alg\<close> is looked at.\<close>

theorem overlap_after_zip_counterexample:
  "slot_names (g_protectedHeader overlap_second_with_zip)
     \<inter> slot_names (r_unprotectedHeader (g_recipients overlap_second_with_zip ! 1)) = {''alg''}
   \<and> GeneralEncrypt_encrypt example_provider overlap_second_with_zip (0, [])
       = (Inl JOSENotSupported, (0, []))"
  by (simp add: GeneralEncrypt_encrypt_def check_recipient_def crit_or_zip_error_def
      overlap_second_with_zip_def general_with_def eval_defs)

text \<open>
  C4, as the code has it. With more than one recipient, a recipient whose merged header
  has \<^verbatim>\<open>alg\<close> \<^verbatim>\<open>dir\<close> or \<^verbatim>\<open>ECDH-ES\<close> makes encrypt throw before a
  content-encryption key is generated or any primitive is called. The recipients are
  checked in order and the first one rejected decides the error. It is what the first
  loop, run on the recipients listed before that one, throws, and JWEInvalid when that
  loop throws nothing: so it is JWEInvalid when every earlier recipient passes its checks;
  it is the error of the first earlier recipient that is rejected, when there is one; and
  an error other than JWEInvalid is what crit validation or the \<^verbatim>\<open>zip\<close> check of an
  earlier recipient throws.
\<close>

theorem direct_algorithms_need_single_recipient:
  assumes "g_recipients this = pre @ r # post" and "pre \<noteq> [] \<or> post \<noteq> []"
    and "read_prop (recipient_header this r) ''alg'' = JStr ''dir''
         \<or> read_prop (recipient_header this r) ''alg'' = JStr ''ECDH-ES''"
  shows "GeneralEncrypt_encrypt P this s
           = (Inl (case check_recipients P this [] pre of Inl e \<Rightarrow> e | Inr enc' \<Rightarrow> JWEInvalid), s)
         \<and> (\<forall>front p rear enc' e.
               pre = front @ p # rear \<and> check_recipients P this [] front = Inr enc'
               \<and> check_recipient P this enc' p = Inl e
               \<longrightarrow> GeneralEncrypt_encrypt P this s = (Inl e, s))
         \<and> (\<forall>e. GeneralEncrypt_encrypt P this s = (Inl e, s) \<and> e \<noteq> JWEInvalid
               \<longrightarrow> (\<exists>p\<in>set pre. crit_or_zip_error P this p = Some e))"
proof -
  have "\<And>enc0. check_recipient P this enc0 r = Inl JWEInvalid"
    using assms(3) by (rule check_recipient_direct)
  from general_rejects [OF assms(1,2) this] show ?thesis .
qed

theorem direct_algorithms_need_single_recipient_witness:
  "g_recipients dir_second
     = [recipient_with (Some [(''alg'', JStr ''A128KW'')])]
       @ recipient_with (Some [(''alg'', JStr ''dir'')]) # []
   \<and> read_prop (recipient_header dir_second (recipient_with (Some [(''alg'', JStr ''dir'')])))
        ''alg'' = JStr ''dir''
   \<and> check_recipients example_provider dir_second []
        [recipient_with (Some [(''alg'', JStr ''A128KW'')])] = Inr ''A128GCM''
   \<and> GeneralEncrypt_encrypt example_provider dir_second (0, []) = (Inl JWEInvalid, (0, []))
   \<and> g_recipients dir_second_first_without_alg
     = [recipient_with (Some [(''zip'', JStr ''DEF'')])]
       @ recipient_with (Some [(''alg'', JStr ''dir'')]) # []
   \<and> read_prop (recipient_header dir_second_first_without_alg
        (recipient_with (Some [(''alg'', JStr ''dir'')]))) ''alg'' = JStr ''dir''
   \<and> check_recipient example_provider dir_second_first_without_alg []
        (recipient_with (Some [(''zip'', JStr ''DEF'')])) = Inl JWEInvalid
   \<and> GeneralEncrypt_encrypt example_provider dir_second_first_without_alg (0, [])
       = (Inl JWEInvalid, (0, []))
   \<and> g_recipients dir_second_after_zip
     = [recipient_with (Some [(''alg'', JStr ''A128KW''), (''zip'', JStr ''DEF'')])]
       @ recipient_with (Some [(''alg'', JStr ''dir'')]) # []
   \<and> read_prop (recipient_header dir_second_after_zip
        (recipient_with (Some [(''alg'', JStr ''dir'')]))) ''alg'' = JStr ''dir''
   \<and> check_recipient example_provider dir_second_after_zip []
        (recipient_with (Some [(''alg'', JStr ''A128KW''), (''zip'', JStr ''DEF'')]))
       = Inl JOSENotSupported
   \<and> GeneralEncrypt_encrypt example_provider dir_second_after_zip (0, [])
       = (Inl JOSENotSupported, (0, []))"
proof -
  let ?kw = "recipient_with (Some [(''alg'', JStr ''A128KW'')])"
  let ?dir = "recipient_with (Some [(''alg'', JStr ''dir'')])"
  let ?zip = "recipient_with (Some [(''zip'', JStr ''DEF'')])"
  let ?kwzip = "recipient_with (Some [(''alg'', JStr ''A128KW''), (''zip'', JStr ''DEF'')])"
  have a1: "g_recipients dir_second = [?kw] @ ?dir # []"
    by (simp add: dir_second_def general_with_def recipient_with_def)
  have b1: "read_prop (recipient_header dir_second ?dir) ''alg'' = JStr ''dir''"
    by (simp add: dir_second_def general_with_def recipient_with_def eval_defs)
  have c1: "check_recipients example_provider dir_second [] [?kw] = Inr ''A128GCM''"
    by (simp add: dir_second_def first_loop_defs eval_defs)
  have a2: "g_recipients dir_second_first_without_alg = [?zip] @ ?dir # []"
    by (simp add: dir_second_first_without_alg_def general_with_def recipient_with_def)
  have b2: "read_prop (recipient_header dir_second_first_without_alg ?dir) ''alg'' = JStr ''dir''"
    by (simp add: dir_second_first_without_alg_def general_with_def recipient_with_def eval_defs)
  have c2: "check_recipient example_provider dir_second_first_without_alg [] ?zip
              = Inl JWEInvalid"
    by (simp add: dir_second_first_without_alg_def first_loop_defs eval_defs)
  have a3: "g_recipients dir_second_after_zip = [?kwzip] @ ?dir # []"
    by (simp add: dir_second_after_zip_def general_with_def recipient_with_def)
  have b3: "read_prop (recipient_header dir_second_after_zip ?dir) ''alg'' = JStr ''dir''"
    by (simp add: dir_second_after_zip_def general_with_def recipient_with_def eval_defs)
  have c3: "check_recipient example_provider dir_second_after_zip [] ?kwzip
              = Inl JOSENotSupported"
    by (simp add: dir_second_after_zip_def first_loop_defs eval_defs)
  have m: "[x] \<noteq> [] \<or> [] \<noteq> ([] :: IndividualRecipient list)" for x by simp
  have r1: "GeneralEncrypt_encrypt example_provider dir_second (0, []) = (Inl JWEInvalid, (0, []))"
    using direct_algorithms_need_single_recipient
      [where P = example_provider and s = "(0, [])", OF a1 m disjI1 [OF b1], THEN conjunct1]
    unfolding c1 by simp
  have r2: "GeneralEncrypt_encrypt example_provider dir_second_first_without_alg (0, [])
              = (Inl JWEInvalid, (0, []))"
    by (rule direct_algorithms_need_single_recipient
        [where P = example_provider and s = "(0, [])", OF a2 m disjI1 [OF b2],
          THEN conjunct2, THEN conjunct1, rule_format,
          where front = "[]" and p = ?zip and rear = "[]" and enc' = "[]"])
      (simp add: c2)
  have r3: "GeneralEncrypt_encrypt example_provider dir_second_after_zip (0, [])
              = (Inl JOSENotSupported, (0, []))"
    by (rule direct_algorithms_need_single_recipient
        [where P = example_provider and s = "(0, [])", OF a3 m disjI1 [OF b3],
          THEN conjunct2, THEN conjunct1, rule_format,
          where front = "[]" and p = ?kwzip and rear = "[]" and enc' = "[]"])
      (simp add: c3)
  from a1 b1 c1 r1 a2 b2 c2 r2 a3 b3 c3 r3 show ?thesis by (intro conjI)
qed

text \<open>C4 as stated fails when an earlier recipient carries \<^verbatim>\<open>zip\<close>: the call throws
  JOSENotSupported for the first recipient, and the second recipient's \<^verbatim>\<open>dir\<close> is
  never looked at.\<close>

theorem direct_after_zip_counterexample:
  "read_prop (recipient_header dir_second_after_zip (g_recipients dir_second_after_zip ! 1))
     ''alg'' = JStr ''dir''
   \<and> GeneralEncrypt_encrypt example_provider dir_second_after_zip (0, [])
       = (Inl JOSENotSupported, (0, []))"
  by (simp add: GeneralEncrypt_encrypt_def check_recipient_def crit_or_zip_error_def
      dir_second_after_zip_def general_with_def eval_defs)

lemma other_enc_rejected:
  assumes rs: "g_recipients this = pre @ r # post"
    and ne: "string_param (read_prop (recipient_header this r) ''enc'') = None
         \<or> string_param (read_prop (recipient_header this r) ''enc'')
             \<noteq> string_param (read_prop (recipient_header this (hd (g_recipients this))) ''enc'')"
    and pre: "check_recipients P this [] pre = Inr enc'"
  shows "check_recipient P this enc' r = Inl JWEInvalid"
proof (cases "string_param (read_prop (recipient_header this r) ''enc'') = None")
  case True
  then show ?thesis by (rule check_recipient_no_enc)
next
  case False
  with ne have d: "string_param (read_prop (recipient_header this r) ''enc'')
             \<noteq> string_param (read_prop (recipient_header this (hd (g_recipients this))) ''enc'')"
    by blast
  have p: "pre \<noteq> []"
  proof
    assume "pre = []"
    with rs have "hd (g_recipients this) = r" by simp
    with d show False by simp
  qed
  with rs have h: "hd (g_recipients this) = hd pre" by simp
  from p have "hd pre \<in> set pre" by (rule hd_in_set)
  with check_recipients_Inr [OF pre]
  have f: "string_param (read_prop (recipient_header this (hd pre)) ''enc'') = Some enc'"
    by blast
  then have "enc' \<noteq> []" by (simp add: string_param_Some)
  moreover from d h f
  have "string_param (read_prop (recipient_header this r) ''enc'') \<noteq> Some enc'" by simp
  ultimately show ?thesis by (rule check_recipient_other_enc)
qed

text \<open>
  C9, as the code has it. With more than one recipient, a recipient whose merged header
  has no non-empty string \<^verbatim>\<open>enc\<close>, or one different from the first recipient's, makes
  encrypt throw before a content-encryption key is generated or any primitive is called.
  The recipients are checked in order and the first one rejected decides the error. It is
  what the first loop, run on the recipients listed before that one, throws, and
  JWEInvalid when that loop throws nothing: so it is JWEInvalid when every earlier
  recipient passes its checks; it is the error of the first earlier recipient that is
  rejected, when there is one; and an error other than JWEInvalid is what crit validation
  or the \<^verbatim>\<open>zip\<close> check of an earlier recipient throws.
\<close>

theorem recipients_share_one_enc:
  assumes "g_recipients this = pre @ r # post" and "pre \<noteq> [] \<or> post \<noteq> []"
    and "string_param (read_prop (recipient_header this r) ''enc'') = None
         \<or> string_param (read_prop (recipient_header this r) ''enc'')
             \<noteq> string_param (read_prop (recipient_header this (hd (g_recipients this))) ''enc'')"
  shows "GeneralEncrypt_encrypt P this s
           = (Inl (case check_recipients P this [] pre of Inl e \<Rightarrow> e | Inr enc' \<Rightarrow> JWEInvalid), s)
         \<and> (\<forall>front p rear enc' e.
               pre = front @ p # rear \<and> check_recipients P this [] front = Inr enc'
               \<and> check_recipient P this enc' p = Inl e
               \<longrightarrow> GeneralEncrypt_encrypt P this s = (Inl e, s))
         \<and> (\<forall>e. GeneralEncrypt_encrypt P this s = (Inl e, s) \<and> e \<noteq> JWEInvalid
               \<longrightarrow> (\<exists>p\<in>set pre. crit_or_zip_error P this p = Some e))"
proof -
  have "\<And>enc'. check_recipients P this [] pre = Inr enc'
          \<Longrightarrow> check_recipient P this enc' r = Inl JWEInvalid"
    using assms(1,3) by (rule other_enc_rejected)
  from general_rejects [OF assms(1,2) this] show ?thesis .
qed

theorem recipients_share_one_enc_witness:
  "g_recipients enc_differs
     = [recipient_with (Some [(''enc'', JStr ''A128GCM'')])]
       @ recipient_with (Some [(''enc'', JStr ''A256GCM'')]) # []
   \<and> string_param (read_prop (recipient_header enc_differs
         (recipient_with (Some [(''enc'', JStr ''A256GCM'')]))) ''enc'') = Some ''A256GCM''
   \<and> string_param (read_prop (recipient_header enc_differs (hd (g_recipients enc_differs)))
         ''enc'') = Some ''A128GCM''
   \<and> check_recipients example_provider enc_differs []
        [recipient_with (Some [(''enc'', JStr ''A128GCM'')])] = Inr ''A128GCM''
   \<and> GeneralEncrypt_encrypt example_provider enc_differs (0, []) = (Inl JWEInvalid, (0, []))
   \<and> g_recipients enc_differs_first_without_alg
     = [recipient_with (Some [(''enc'', JStr ''A128GCM''), (''zip'', JStr ''DEF'')])]
       @ recipient_with (Some [(''alg'', JStr ''A128KW''), (''enc'', JStr ''A256GCM'')]) # []
   \<and> string_param (read_prop (recipient_header enc_differs_first_without_alg
         (recipient_with (Some [(''alg'', JStr ''A128KW''), (''enc'', JStr ''A256GCM'')])))
         ''enc'') = Some ''A256GCM''
   \<and> string_param (read_prop (recipient_header enc_differs_first_without_alg
         (hd (g_recipients enc_differs_first_without_alg))) ''enc'') = Some ''A128GCM''
   \<and> check_recipient example_provider enc_differs_first_without_alg []
        (recipient_with (Some [(''enc'', JStr ''A128GCM''), (''zip'', JStr ''DEF'')]))
       = Inl JWEInvalid
   \<and> GeneralEncrypt_encrypt example_provider enc_differs_first_without_alg (0, [])
       = (Inl JWEInvalid, (0, []))
   \<and> g_recipients enc_differs_with_zip
     = [recipient_with (Some [(''enc'', JStr ''A128GCM'')])]
       @ recipient_with (Some [(''enc'', JStr ''A256GCM'')]) # []
   \<and> string_param (read_prop (recipient_header enc_differs_with_zip
         (recipient_with (Some [(''enc'', JStr ''A256GCM'')]))) ''enc'') = Some ''A256GCM''
   \<and> string_param (read_prop (recipient_header enc_differs_with_zip
         (hd (g_recipients enc_differs_with_zip))) ''enc'') = Some ''A128GCM''
   \<and> check_recipient example_provider enc_differs_with_zip []
        (recipient_with (Some [(''enc'', JStr ''A128GCM'')])) = Inl JOSENotSupported
   \<and> GeneralEncrypt_encrypt example_provider enc_differs_with_zip (0, [])
       = (Inl JOSENotSupported, (0, []))"
proof -
  let ?a = "recipient_with (Some [(''enc'', JStr ''A128GCM'')])"
  let ?b = "recipient_with (Some [(''enc'', JStr ''A256GCM'')])"
  let ?az = "recipient_with (Some [(''enc'', JStr ''A128GCM''), (''zip'', JStr ''DEF'')])"
  let ?kb = "recipient_with (Some [(''alg'', JStr ''A128KW''), (''enc'', JStr ''A256GCM'')])"
  have m: "[x] \<noteq> [] \<or> [] \<noteq> ([] :: IndividualRecipient list)" for x by simp
  have a1: "g_recipients enc_differs = [?a] @ ?b # []"
    by (simp add: enc_differs_def general_with_def recipient_with_def)
  have b1: "string_param (read_prop (recipient_header enc_differs ?b) ''enc'') = Some ''A256GCM''"
    by (simp add: enc_differs_def general_with_def recipient_with_def eval_defs)
  have h1: "string_param (read_prop (recipient_header enc_differs (hd (g_recipients enc_differs)))
              ''enc'') = Some ''A128GCM''"
    by (simp add: enc_differs_def general_with_def recipient_with_def eval_defs)
  have n1: "string_param (read_prop (recipient_header enc_differs ?b) ''enc'') = None
      \<or> string_param (read_prop (recipient_header enc_differs ?b) ''enc'')
        \<noteq> string_param (read_prop (recipient_header enc_differs (hd (g_recipients enc_differs)))
             ''enc'')"
    unfolding b1 h1 by simp
  have c1: "check_recipients example_provider enc_differs [] [?a] = Inr ''A128GCM''"
    by (simp add: enc_differs_def first_loop_defs eval_defs)
  have r1: "GeneralEncrypt_encrypt example_provider enc_differs (0, [])
              = (Inl JWEInvalid, (0, []))"
    using recipients_share_one_enc
      [where P = example_provider and s = "(0, [])", OF a1 m n1, THEN conjunct1]
    unfolding c1 by simp
  have a2: "g_recipients enc_differs_first_without_alg = [?az] @ ?kb # []"
    by (simp add: enc_differs_first_without_alg_def general_with_def recipient_with_def)
  have b2: "string_param (read_prop (recipient_header enc_differs_first_without_alg ?kb) ''enc'')
              = Some ''A256GCM''"
    by (simp add: enc_differs_first_without_alg_def general_with_def recipient_with_def
        eval_defs)
  have h2: "string_param (read_prop (recipient_header enc_differs_first_without_alg
              (hd (g_recipients enc_differs_first_without_alg))) ''enc'') = Some ''A128GCM''"
    by (simp add: enc_differs_first_without_alg_def general_with_def recipient_with_def
        eval_defs)
  have n2: "string_param (read_prop (recipient_header enc_differs_first_without_alg ?kb) ''enc'')
              = None
      \<or> string_param (read_prop (recipient_header enc_differs_first_without_alg ?kb) ''enc'')
        \<noteq> string_param (read_prop (recipient_header enc_differs_first_without_alg
              (hd (g_recipients enc_differs_first_without_alg))) ''enc'')"
    unfolding b2 h2 by simp
  have c2: "check_recipient example_provider enc_differs_first_without_alg [] ?az
              = Inl JWEInvalid"
    by (simp add: enc_differs_first_without_alg_def first_loop_defs eval_defs)
  have r2: "GeneralEncrypt_encrypt example_provider enc_differs_first_without_alg (0, [])
              = (Inl JWEInvalid, (0, []))"
    by (rule recipients_share_one_enc
        [where P = example_provider and s = "(0, [])", OF a2 m n2,
          THEN conjunct2, THEN conjunct1, rule_format,
          where front = "[]" and p = ?az and rear = "[]" and enc' = "[]"])
      (simp add: c2)
  have a3: "g_recipients enc_differs_with_zip = [?a] @ ?b # []"
    by (simp add: enc_differs_with_zip_def general_with_def recipient_with_def)
  have b3: "string_param (read_prop (recipient_header enc_differs_with_zip ?b) ''enc'')
              = Some ''A256GCM''"
    by (simp add: enc_differs_with_zip_def general_with_def recipient_with_def eval_defs)
  have h3: "string_param (read_prop (recipient_header enc_differs_with_zip
              (hd (g_recipients enc_differs_with_zip))) ''enc'') = Some ''A128GCM''"
    by (simp add: enc_differs_with_zip_def general_with_def recipient_with_def eval_defs)
  have n3: "string_param (read_prop (recipient_header enc_differs_with_zip ?b) ''enc'') = None
      \<or> string_param (read_prop (recipient_header enc_differs_with_zip ?b) ''enc'')
        \<noteq> string_param (read_prop (recipient_header enc_differs_with_zip
              (hd (g_recipients enc_differs_with_zip))) ''enc'')"
    unfolding b3 h3 by simp
  have c3: "check_recipient example_provider enc_differs_with_zip [] ?a = Inl JOSENotSupported"
    by (simp add: enc_differs_with_zip_def first_loop_defs eval_defs)
  have r3: "GeneralEncrypt_encrypt example_provider enc_differs_with_zip (0, [])
              = (Inl JOSENotSupported, (0, []))"
    by (rule recipients_share_one_enc
        [where P = example_provider and s = "(0, [])", OF a3 m n3,
          THEN conjunct2, THEN conjunct1, rule_format,
          where front = "[]" and p = ?a and rear = "[]" and enc' = "[]"])
      (simp add: c3)
  from a1 b1 h1 c1 r1 a2 b2 h2 c2 r2 a3 b3 h3 c3 r3 show ?thesis by (intro conjI)
qed

text \<open>C9 as stated fails when the protected header carries \<^verbatim>\<open>zip\<close>: the call throws
  JOSENotSupported for the first recipient, and the second recipient's different
  \<^verbatim>\<open>enc\<close> is never looked at.\<close>

theorem enc_differs_after_zip_counterexample:
  "string_param (read_prop (recipient_header enc_differs_with_zip
       (g_recipients enc_differs_with_zip ! 1)) ''enc'') = Some ''A256GCM''
   \<and> string_param (read_prop (recipient_header enc_differs_with_zip
       (g_recipients enc_differs_with_zip ! 0)) ''enc'') = Some ''A128GCM''
   \<and> GeneralEncrypt_encrypt example_provider enc_differs_with_zip (0, [])
       = (Inl JOSENotSupported, (0, []))"
  by (simp add: GeneralEncrypt_encrypt_def check_recipient_def crit_or_zip_error_def
      enc_differs_with_zip_def general_with_def eval_defs)

section \<open>GeneralEncrypt.encrypt: one content-encryption key for all recipients\<close>

subsection \<open>The merged header does not depend on the order of disjoint slots\<close>







subsection \<open>The second loop\<close>












lemma quiet_events:
  assumes "\<forall>e\<in>set evs. (\<exists>x. e = EvGenerateIv x) \<or> (\<exists>x. e = EvDeflate x)"
  shows "concat (map generated evs) = []" and "concat (map cek_given evs) = []"
  using assms by (induction evs) auto






end
